theory Spec2Isabelle
  imports Complex_Main
begin

section \<open>Host conventions\<close>

text \<open>
  JavaScript numbers are modelled as \<^typ>\<open>real\<close> (finite values only; \<open>NaN\<close> and the
  infinities are outside the model), array indices and \<open>Date.now()\<close> readings as
  \<^typ>\<open>nat\<close>, strings as \<^typ>\<open>string\<close>. A string is falsy exactly when it is empty, a
  number exactly when it is zero. An optional argument that was left out is \<open>None\<close>.
\<close>

definition truthy_string :: "string \<Rightarrow> bool" where
  "truthy_string s = (s \<noteq> [])"

definition truthy_number :: "real \<Rightarrow> bool" where
  "truthy_number r = (r \<noteq> 0)"

text \<open>The decimal digits a template literal writes for a non-negative integer.\<close>

definition digit_char :: "nat \<Rightarrow> char" where
  "digit_char d = char_of (48 + d)"

fun dec :: "nat \<Rightarrow> string" where
  "dec n = (if n < 10 then [digit_char n] else dec (n div 10) @ [digit_char (n mod 10)])"

declare dec.simps [simp del]

text \<open>\<open>Array.prototype.join\<close> on an array of strings.\<close>

fun join :: "string \<Rightarrow> string list \<Rightarrow> string" where
  "join sep [] = []"
| "join sep [s] = s"
| "join sep (s # t # ts) = s @ sep @ join sep (t # ts)"

text \<open>\<open>Math.round\<close>: the nearest integer, halves rounded towards plus infinity.\<close>

definition Math_round :: "real \<Rightarrow> real" where
  "Math_round r = of_int \<lfloor>r + 1 / 2\<rfloor>"

text \<open>Errors a call can throw.\<close>

datatype error = TypeError

section \<open>Layout types\<close>

record visual_properties =
  x_pos :: real
  y_pos :: real
  width :: real
  height :: real
  backgroundColor :: string
  foregroundColor :: string
  needleColor :: string
  opacity :: real
  visible :: bool
  showText :: bool
  fontFamily :: string
  fontSize :: real
  fontWeight :: string
  fontStyle :: string

text \<open>
  \<open>ElementType\<close> and \<open>SensorId\<close> are unions of string literals that exist at compile time
  only; at run time (after \<open>as any\<close>, or in an imported document) they are plain strings.
\<close>

record element =
  id_el :: string
  type_el :: string
  sensor :: string
  visual :: visual_properties
  animated :: bool
  animationSpeed :: real

record compatibility =
  minVersion :: "string option"
  maxVersion :: "string option"

record metadata =
  name_md :: "string option"
  description_md :: "string option"
  author :: "string option"
  created :: "string option"
  modified :: "string option"
  tags :: "string list option"
  compat :: "compatibility option"

record layout_data =
  version :: string
  elements :: "element list"
  meta :: "metadata option"

datatype severity = Error | Warning | Info

record validation_error =
  path :: string
  message :: string
  severity :: severity

record validation_result =
  isValid :: bool
  errors :: "validation_error list"
  warnings :: "validation_error list"

text \<open>A partial element, as \<open>updateElement\<close> receives it: the fields that are given.\<close>

record element_updates =
  id_upd :: "string option"
  type_upd :: "string option"
  sensor_upd :: "string option"
  visual_upd :: "visual_properties option"
  animated_upd :: "bool option"
  animationSpeed_upd :: "real option"

section \<open>Element catalog\<close>

record size =
  sz_width :: real
  sz_height :: real

text \<open>
  The fields of an \<open>ElementDefinition\<close> that are data of the model; the display fields
  (name, description, category, icon) are read by the palette only.
\<close>

record element_definition =
  type_def :: string
  defaultSize :: size
  suggestedSensors :: "string list"
  requiredProperties :: "string list"
  optionalProperties :: "string list"

definition ELEMENT_DEFINITIONS :: "(string \<times> element_definition) list" where
  "ELEMENT_DEFINITIONS = [
  (''gauge'', \<lparr>type_def = ''gauge'', defaultSize = \<lparr>sz_width = 150, sz_height = 150\<rparr>,
     suggestedSensors = [''CPU_Utilization'', ''GPU_Utilization'', ''Memory_Usage''],
     requiredProperties = [''needleColor''],
     optionalProperties = [''backgroundColor'', ''foregroundColor'']\<rparr>),
  (''text'', \<lparr>type_def = ''text'', defaultSize = \<lparr>sz_width = 100, sz_height = 30\<rparr>,
     suggestedSensors = [''CPU_Temperature'', ''GPU_Temperature'', ''Memory_Total''],
     requiredProperties = [''fontFamily'', ''fontSize'', ''foregroundColor''],
     optionalProperties = [''backgroundColor'']\<rparr>),
  (''bar'', \<lparr>type_def = ''bar'', defaultSize = \<lparr>sz_width = 200, sz_height = 30\<rparr>,
     suggestedSensors = [''CPU_Utilization'', ''GPU_Utilization'', ''Memory_Usage''],
     requiredProperties = [''backgroundColor'', ''foregroundColor''],
     optionalProperties = [''needleColor'']\<rparr>),
  (''circle'', \<lparr>type_def = ''circle'', defaultSize = \<lparr>sz_width = 100, sz_height = 100\<rparr>,
     suggestedSensors = [''CPU_Utilization'', ''GPU_Utilization''],
     requiredProperties = [''backgroundColor'', ''foregroundColor''],
     optionalProperties = [''needleColor'']\<rparr>),
  (''rectangle'', \<lparr>type_def = ''rectangle'', defaultSize = \<lparr>sz_width = 100, sz_height = 50\<rparr>,
     suggestedSensors = [''CPU_Utilization'', ''GPU_Utilization''],
     requiredProperties = [''backgroundColor'', ''foregroundColor''],
     optionalProperties = []\<rparr>),
  (''line'', \<lparr>type_def = ''line'', defaultSize = \<lparr>sz_width = 200, sz_height = 10\<rparr>,
     suggestedSensors = [''CPU_Utilization'', ''GPU_Utilization''],
     requiredProperties = [''foregroundColor''],
     optionalProperties = [''backgroundColor'']\<rparr>),
  (''progress_ring'', \<lparr>type_def = ''progress_ring'', defaultSize = \<lparr>sz_width = 150, sz_height = 150\<rparr>,
     suggestedSensors = [''CPU_Utilization'', ''GPU_Utilization'', ''Memory_Usage''],
     requiredProperties = [''backgroundColor'', ''foregroundColor'', ''needleColor''],
     optionalProperties = []\<rparr>),
  (''dial'', \<lparr>type_def = ''dial'', defaultSize = \<lparr>sz_width = 150, sz_height = 150\<rparr>,
     suggestedSensors = [''CPU_Temperature'', ''GPU_Temperature''],
     requiredProperties = [''backgroundColor'', ''foregroundColor'', ''needleColor''],
     optionalProperties = []\<rparr>),
  (''thermometer'', \<lparr>type_def = ''thermometer'', defaultSize = \<lparr>sz_width = 50, sz_height = 200\<rparr>,
     suggestedSensors = [''CPU_Temperature'', ''GPU_Temperature'', ''Disk_Temperature''],
     requiredProperties = [''backgroundColor'', ''foregroundColor''],
     optionalProperties = [''needleColor'']\<rparr>),
  (''speedometer'', \<lparr>type_def = ''speedometer'', defaultSize = \<lparr>sz_width = 200, sz_height = 150\<rparr>,
     suggestedSensors = [''CPU_Clock'', ''GPU_Clock''],
     requiredProperties = [''backgroundColor'', ''foregroundColor'', ''needleColor''],
     optionalProperties = []\<rparr>),
  (''level_meter'', \<lparr>type_def = ''level_meter'', defaultSize = \<lparr>sz_width = 30, sz_height = 200\<rparr>,
     suggestedSensors = [''Memory_Usage'', ''Disk_Usage''],
     requiredProperties = [''backgroundColor'', ''foregroundColor''],
     optionalProperties = [''needleColor'']\<rparr>),
  (''radial_gauge'', \<lparr>type_def = ''radial_gauge'', defaultSize = \<lparr>sz_width = 150, sz_height = 150\<rparr>,
     suggestedSensors = [''CPU_Utilization'', ''GPU_Utilization''],
     requiredProperties = [''backgroundColor'', ''foregroundColor'', ''needleColor''],
     optionalProperties = []\<rparr>),
  (''linear_gauge'', \<lparr>type_def = ''linear_gauge'', defaultSize = \<lparr>sz_width = 200, sz_height = 50\<rparr>,
     suggestedSensors = [''CPU_Utilization'', ''GPU_Utilization''],
     requiredProperties = [''backgroundColor'', ''foregroundColor'', ''needleColor''],
     optionalProperties = []\<rparr>),
  (''led'', \<lparr>type_def = ''led'', defaultSize = \<lparr>sz_width = 20, sz_height = 20\<rparr>,
     suggestedSensors = [''CPU_Utilization'', ''GPU_Utilization''],
     requiredProperties = [''backgroundColor'', ''foregroundColor''],
     optionalProperties = [''needleColor'']\<rparr>),
  (''status_light'', \<lparr>type_def = ''status_light'', defaultSize = \<lparr>sz_width = 30, sz_height = 30\<rparr>,
     suggestedSensors = [''CPU_Utilization'', ''GPU_Utilization''],
     requiredProperties = [''backgroundColor'', ''foregroundColor''],
     optionalProperties = [''needleColor'']\<rparr>),
  (''traffic_light'', \<lparr>type_def = ''traffic_light'', defaultSize = \<lparr>sz_width = 40, sz_height = 100\<rparr>,
     suggestedSensors = [''CPU_Temperature'', ''GPU_Temperature''],
     requiredProperties = [''backgroundColor'', ''foregroundColor''],
     optionalProperties = [''needleColor'']\<rparr>),
  (''battery'', \<lparr>type_def = ''battery'', defaultSize = \<lparr>sz_width = 60, sz_height = 30\<rparr>,
     suggestedSensors = [''Memory_Usage'', ''Disk_Usage'', ''GPU_Memory''],
     requiredProperties = [''backgroundColor'', ''foregroundColor''],
     optionalProperties = [''needleColor'']\<rparr>),
  (''signal_bars'', \<lparr>type_def = ''signal_bars'', defaultSize = \<lparr>sz_width = 40, sz_height = 60\<rparr>,
     suggestedSensors = [''WiFi_Speed'', ''Ethernet_Speed'', ''Network_Upload''],
     requiredProperties = [''backgroundColor'', ''foregroundColor''],
     optionalProperties = [''needleColor'']\<rparr>),
  (''wifi_indicator'', \<lparr>type_def = ''wifi_indicator'', defaultSize = \<lparr>sz_width = 50, sz_height = 50\<rparr>,
     suggestedSensors = [''WiFi_Speed'', ''Network_Upload''],
     requiredProperties = [''backgroundColor'', ''foregroundColor''],
     optionalProperties = [''needleColor'']\<rparr>),
  (''cpu_cores'', \<lparr>type_def = ''cpu_cores'', defaultSize = \<lparr>sz_width = 200, sz_height = 100\<rparr>,
     suggestedSensors = [''CPU_Utilization'', ''CPU_Core_0'', ''CPU_Core_1''],
     requiredProperties = [''backgroundColor'', ''foregroundColor''],
     optionalProperties = [''needleColor'']\<rparr>),
  (''memory_banks'', \<lparr>type_def = ''memory_banks'', defaultSize = \<lparr>sz_width = 150, sz_height = 200\<rparr>,
     suggestedSensors = [''Memory_Usage'', ''Memory_Total''],
     requiredProperties = [''backgroundColor'', ''foregroundColor''],
     optionalProperties = [''needleColor'']\<rparr>),
  (''network_activity'', \<lparr>type_def = ''network_activity'', defaultSize = \<lparr>sz_width = 200, sz_height = 100\<rparr>,
     suggestedSensors = [''Network_Upload'', ''Network_Download'', ''WiFi_Speed''],
     requiredProperties = [''backgroundColor'', ''foregroundColor''],
     optionalProperties = [''needleColor'']\<rparr>),
  (''disk_activity'', \<lparr>type_def = ''disk_activity'', defaultSize = \<lparr>sz_width = 200, sz_height = 100\<rparr>,
     suggestedSensors = [''Disk_Read'', ''Disk_Write'', ''Disk_Usage''],
     requiredProperties = [''backgroundColor'', ''foregroundColor''],
     optionalProperties = [''needleColor'']\<rparr>),
  (''fan_blade'', \<lparr>type_def = ''fan_blade'', defaultSize = \<lparr>sz_width = 100, sz_height = 100\<rparr>,
     suggestedSensors = [''Fan_CPU'', ''Fan_Case_1'', ''GPU_Fan''],
     requiredProperties = [''backgroundColor'', ''foregroundColor''],
     optionalProperties = [''needleColor'']\<rparr>),
  (''temperature_zones'', \<lparr>type_def = ''temperature_zones'', defaultSize = \<lparr>sz_width = 200, sz_height = 150\<rparr>,
     suggestedSensors = [''CPU_Temperature'', ''GPU_Temperature'', ''Motherboard_Temperature''],
     requiredProperties = [''backgroundColor'', ''foregroundColor''],
     optionalProperties = [''needleColor'']\<rparr>),
  (''line_graph'', \<lparr>type_def = ''line_graph'', defaultSize = \<lparr>sz_width = 300, sz_height = 150\<rparr>,
     suggestedSensors = [''CPU_Utilization'', ''GPU_Utilization'', ''Memory_Usage''],
     requiredProperties = [''backgroundColor'', ''foregroundColor''],
     optionalProperties = [''needleColor'']\<rparr>),
  (''area_graph'', \<lparr>type_def = ''area_graph'', defaultSize = \<lparr>sz_width = 300, sz_height = 150\<rparr>,
     suggestedSensors = [''CPU_Utilization'', ''GPU_Utilization''],
     requiredProperties = [''backgroundColor'', ''foregroundColor''],
     optionalProperties = [''needleColor'']\<rparr>),
  (''sparkline'', \<lparr>type_def = ''sparkline'', defaultSize = \<lparr>sz_width = 100, sz_height = 30\<rparr>,
     suggestedSensors = [''CPU_Utilization'', ''GPU_Utilization''],
     requiredProperties = [''foregroundColor''],
     optionalProperties = [''backgroundColor'', ''needleColor'']\<rparr>),
  (''histogram'', \<lparr>type_def = ''histogram'', defaultSize = \<lparr>sz_width = 200, sz_height = 150\<rparr>,
     suggestedSensors = [''CPU_Utilization'', ''GPU_Utilization''],
     requiredProperties = [''backgroundColor'', ''foregroundColor''],
     optionalProperties = [''needleColor'']\<rparr>),
  (''pie_chart'', \<lparr>type_def = ''pie_chart'', defaultSize = \<lparr>sz_width = 150, sz_height = 150\<rparr>,
     suggestedSensors = [''CPU_Utilization'', ''GPU_Utilization'', ''Memory_Usage''],
     requiredProperties = [''backgroundColor'', ''foregroundColor''],
     optionalProperties = [''needleColor'']\<rparr>),
  (''donut_chart'', \<lparr>type_def = ''donut_chart'', defaultSize = \<lparr>sz_width = 150, sz_height = 150\<rparr>,
     suggestedSensors = [''CPU_Utilization'', ''GPU_Utilization'', ''Memory_Usage''],
     requiredProperties = [''backgroundColor'', ''foregroundColor''],
     optionalProperties = [''needleColor'']\<rparr>),
  (''button'', \<lparr>type_def = ''button'', defaultSize = \<lparr>sz_width = 100, sz_height = 40\<rparr>,
     suggestedSensors = [],
     requiredProperties = [''backgroundColor'', ''foregroundColor''],
     optionalProperties = [''needleColor'']\<rparr>),
  (''toggle'', \<lparr>type_def = ''toggle'', defaultSize = \<lparr>sz_width = 60, sz_height = 30\<rparr>,
     suggestedSensors = [],
     requiredProperties = [''backgroundColor'', ''foregroundColor''],
     optionalProperties = [''needleColor'']\<rparr>),
  (''slider'', \<lparr>type_def = ''slider'', defaultSize = \<lparr>sz_width = 200, sz_height = 20\<rparr>,
     suggestedSensors = [],
     requiredProperties = [''backgroundColor'', ''foregroundColor''],
     optionalProperties = [''needleColor'']\<rparr>),
  (''knob'', \<lparr>type_def = ''knob'', defaultSize = \<lparr>sz_width = 60, sz_height = 60\<rparr>,
     suggestedSensors = [],
     requiredProperties = [''backgroundColor'', ''foregroundColor''],
     optionalProperties = [''needleColor'']\<rparr>),
  (''particle_system'', \<lparr>type_def = ''particle_system'', defaultSize = \<lparr>sz_width = 200, sz_height = 200\<rparr>,
     suggestedSensors = [''CPU_Utilization'', ''GPU_Utilization''],
     requiredProperties = [''backgroundColor'', ''foregroundColor''],
     optionalProperties = [''needleColor'']\<rparr>),
  (''wave_form'', \<lparr>type_def = ''wave_form'', defaultSize = \<lparr>sz_width = 300, sz_height = 100\<rparr>,
     suggestedSensors = [''CPU_Utilization'', ''GPU_Utilization''],
     requiredProperties = [''backgroundColor'', ''foregroundColor''],
     optionalProperties = [''needleColor'']\<rparr>),
  (''spectrum_analyzer'', \<lparr>type_def = ''spectrum_analyzer'', defaultSize = \<lparr>sz_width = 300, sz_height = 150\<rparr>,
     suggestedSensors = [''CPU_Utilization'', ''GPU_Utilization''],
     requiredProperties = [''backgroundColor'', ''foregroundColor''],
     optionalProperties = [''needleColor'']\<rparr>),
  (''flame_effect'', \<lparr>type_def = ''flame_effect'', defaultSize = \<lparr>sz_width = 100, sz_height = 150\<rparr>,
     suggestedSensors = [''CPU_Temperature'', ''GPU_Temperature''],
     requiredProperties = [''backgroundColor'', ''foregroundColor''],
     optionalProperties = [''needleColor'']\<rparr>),
  (''liquid_fill'', \<lparr>type_def = ''liquid_fill'', defaultSize = \<lparr>sz_width = 100, sz_height = 200\<rparr>,
     suggestedSensors = [''Memory_Usage'', ''Disk_Usage''],
     requiredProperties = [''backgroundColor'', ''foregroundColor''],
     optionalProperties = [''needleColor'']\<rparr>)]"

text \<open>
  \<open>ELEMENT_DEFINITIONS\<close> is an object literal, so \<open>ELEMENT_DEFINITIONS[type]\<close> also finds the
  members every object inherits from \<open>Object.prototype\<close>: for these names the lookup is
  a truthy value that is no element definition.
\<close>

definition Object_prototype_keys :: "string list" where
  "Object_prototype_keys =
     [''constructor'', ''__proto__'', ''hasOwnProperty'', ''isPrototypeOf'',
      ''propertyIsEnumerable'', ''toLocaleString'', ''toString'', ''valueOf'',
      ''__defineGetter__'', ''__defineSetter__'', ''__lookupGetter__'', ''__lookupSetter__'']"

datatype 'a property = Own 'a | Inherited | Undefined

definition lookup_definition :: "string \<Rightarrow> element_definition property" where
  "lookup_definition t =
     (case map_of ELEMENT_DEFINITIONS t of
        Some d \<Rightarrow> Own d
      | None \<Rightarrow> if t \<in> set Object_prototype_keys then Inherited else Undefined)"

section \<open>Validation\<close>

subsection \<open>Regular expressions\<close>

text \<open>
  The fragment of the regular-expression language that \<open>COLOR_REGEX\<close> uses, matched against
  the whole string (the pattern is anchored by \<open>^\<close> and \<open>$\<close> and carries no flags).
\<close>

datatype rx = RNone | REps | RClass "char list" | RSeq rx rx | RAlt rx rx | RStar rx

fun nullable :: "rx \<Rightarrow> bool" where
  "nullable RNone = False"
| "nullable REps = True"
| "nullable (RClass cs) = False"
| "nullable (RSeq r s) = (nullable r \<and> nullable s)"
| "nullable (RAlt r s) = (nullable r \<or> nullable s)"
| "nullable (RStar r) = True"

fun deriv :: "char \<Rightarrow> rx \<Rightarrow> rx" where
  "deriv c RNone = RNone"
| "deriv c REps = RNone"
| "deriv c (RClass cs) = (if c \<in> set cs then REps else RNone)"
| "deriv c (RSeq r s) =
     (if nullable r then RAlt (RSeq (deriv c r) s) (deriv c s) else RSeq (deriv c r) s)"
| "deriv c (RAlt r s) = RAlt (deriv c r) (deriv c s)"
| "deriv c (RStar r) = RSeq (deriv c r) (RStar r)"

fun rx_test :: "rx \<Rightarrow> string \<Rightarrow> bool" where
  "rx_test r [] = nullable r"
| "rx_test r (c # cs) = rx_test (deriv c r) cs"

fun lit :: "string \<Rightarrow> rx" where
  "lit [] = REps"
| "lit (c # cs) = RSeq (RClass [c]) (lit cs)"

definition plus :: "rx \<Rightarrow> rx" where
  "plus r = RSeq r (RStar r)"

definition opt :: "rx \<Rightarrow> rx" where
  "opt r = RAlt REps r"

fun alts :: "rx list \<Rightarrow> rx" where
  "alts [] = RNone"
| "alts [r] = r"
| "alts (r # s # rs) = RAlt r (alts (s # rs))"

fun seqs :: "rx list \<Rightarrow> rx" where
  "seqs [] = REps"
| "seqs [r] = r"
| "seqs (r # s # rs) = RSeq r (seqs (s # rs))"

definition digit :: rx where
  "digit = RClass ''0123456789''"

definition hex :: rx where
  "hex = RClass ''0123456789abcdefABCDEF''"

text \<open>\<open>\s\<close>, on the code units below 256: tab, line feed, vertical tab, form feed,
  carriage return, space and the no-break space.\<close>

definition space :: rx where
  "space = RClass [CHR 0x09, CHR 0x0A, CHR 0x0B, CHR 0x0C, CHR 0x0D, CHR 0x20, CHR 0xA0]"

definition digit_or_dot :: rx where
  "digit_or_dot = RClass ''0123456789.''"

text \<open>\<open>,\s*\<close>\<close>

definition comma :: rx where
  "comma = RSeq (lit '','') (RStar space)"

definition COLOR_REGEX :: rx where
  "COLOR_REGEX = alts [
     lit ''transparent'',
     seqs [lit ''#'', hex, hex, hex, opt (RSeq hex (opt (RSeq hex (opt hex))))],
     seqs [lit ''rgb('', plus digit, comma, plus digit, comma, plus digit, lit '')''],
     seqs [lit ''rgba('', plus digit, comma, plus digit, comma, plus digit, comma,
           plus digit_or_dot, lit '')''],
     seqs [lit ''hsl('', plus digit, comma, plus digit, lit ''%'', comma, plus digit,
           lit ''%'', lit '')''],
     seqs [lit ''hsla('', plus digit, comma, plus digit, lit ''%'', comma, plus digit,
           lit ''%'', comma, plus digit_or_dot, lit '')'']]"

subsection \<open>The schema validator\<close>

text \<open>
  The JSON schema that \<open>ajv\<close> compiles is not part of the sources, and neither is the
  conversion of a number to a string; both are parameters. \<open>validateSchema\<close> yields the
  verdict and the \<open>errors\<close> property (\<open>None\<close> for \<open>null\<close>).
\<close>

record ajv_error =
  instancePath :: string
  ajv_message :: "string option"

record host =
  validateSchema :: "layout_data \<Rightarrow> bool \<times> ajv_error list option"
  numberToString :: "real \<Rightarrow> string"

subsection \<open>validateLayout\<close>

definition VALID_SENSOR_IDS :: "string list" where
  "VALID_SENSOR_IDS = [
     ''CPU_Utilization'', ''CPU_Temperature'', ''CPU_Power'', ''CPU_Voltage'', ''CPU_Clock'',
     ''CPU_Core_0'', ''CPU_Core_1'', ''CPU_Core_2'', ''CPU_Core_3'', ''CPU_Core_4'',
     ''CPU_Core_5'', ''CPU_Core_6'', ''CPU_Core_7'',
     ''GPU_Utilization'', ''GPU_Temperature'', ''GPU_Memory'', ''GPU_Power'', ''GPU_Clock'',
     ''GPU_Fan'',
     ''Memory_Usage'', ''Memory_Total'', ''Memory_Available'', ''Memory_Bandwidth'',
     ''WiFi_Speed'', ''Ethernet_Speed'', ''Network_Upload'', ''Network_Download'',
     ''Disk_Usage'', ''Disk_Temperature'', ''Disk_Read'', ''Disk_Write'',
     ''Motherboard_Temperature'', ''Fan_CPU'', ''Fan_Case_1'', ''Fan_Case_2'',
     ''PSU_Power'', ''PSU_Voltage_12V'', ''PSU_Voltage_5V'']"

definition validFontWeights :: "string list" where
  "validFontWeights = [''normal'', ''bold'', ''100'', ''200'', ''300'', ''400'', ''500'',
     ''600'', ''700'', ''800'', ''900'']"

definition validFontStyles :: "string list" where
  "validFontStyles = [''normal'', ''italic'', ''oblique'']"

text \<open>\<open>if (c) arr.push(e)\<close>\<close>

definition push_if :: "bool \<Rightarrow> 'a \<Rightarrow> 'a list \<Rightarrow> 'a list" where
  "push_if c e arr = (if c then arr @ [e] else arr)"

definition issue :: "string \<Rightarrow> string \<Rightarrow> severity \<Rightarrow> validation_error" where
  "issue p m s = \<lparr>path = p, message = m, severity = s\<rparr>"

text \<open>
  The body of the \<open>forEach\<close> over the elements: one element and its index, pushing onto
  \<open>errors\<close> and \<open>warnings\<close>. \<open>element.visual\<close> is an object, so its guard always passes.
\<close>

definition element_rules ::
  "host \<Rightarrow> layout_data \<Rightarrow> nat \<times> element
     \<Rightarrow> validation_error list \<times> validation_error list
     \<Rightarrow> validation_error list \<times> validation_error list" where
  "element_rules h layout ie acc =
     (let index = fst ie; element = snd ie; errors = fst acc; warnings = snd acc;
          elementPath = ''elements['' @ dec index @ '']'';
          warnings = push_if
            (truthy_string (sensor element) \<and> sensor element \<notin> set VALID_SENSOR_IDS)
            (issue (elementPath @ ''.sensor'')
               (''Unknown sensor ID: '' @ sensor element @ ''. Valid sensors: ''
                  @ join '', '' VALID_SENSOR_IDS)
               Warning) warnings;
          duplicateIds = filter (\<lambda>el. id_el el = id_el element) (elements layout);
          errors = push_if (length duplicateIds > 1)
            (issue (elementPath @ ''.id'') (''Duplicate element ID: '' @ id_el element) Error)
            errors;
          v = visual element;
          visualPath = elementPath @ ''.visual'';
          errors = push_if
            (truthy_string (backgroundColor v) \<and> \<not> rx_test COLOR_REGEX (backgroundColor v))
            (issue (visualPath @ ''.backgroundColor'')
               (''Invalid color format: '' @ backgroundColor v) Error) errors;
          errors = push_if
            (truthy_string (foregroundColor v) \<and> \<not> rx_test COLOR_REGEX (foregroundColor v))
            (issue (visualPath @ ''.foregroundColor'')
               (''Invalid color format: '' @ foregroundColor v) Error) errors;
          errors = push_if
            (truthy_string (needleColor v) \<and> \<not> rx_test COLOR_REGEX (needleColor v))
            (issue (visualPath @ ''.needleColor'')
               (''Invalid color format: '' @ needleColor v) Error) errors;
          errors = push_if (opacity v < 0 \<or> opacity v > 1)
            (issue (visualPath @ ''.opacity'')
               (''Opacity must be between 0 and 1, got: '' @ numberToString h (opacity v))
               Error) errors;
          warnings = push_if (fontSize v < 8 \<or> fontSize v > 72)
            (issue (visualPath @ ''.fontSize'')
               (''Font size should be between 8 and 72 pixels, got: ''
                  @ numberToString h (fontSize v))
               Warning) warnings;
          errors = push_if (fontWeight v \<notin> set validFontWeights)
            (issue (visualPath @ ''.fontWeight'')
               (''Font weight must be one of: '' @ join '', '' validFontWeights @ '', got: ''
                  @ fontWeight v)
               Error) errors;
          errors = push_if (fontStyle v \<notin> set validFontStyles)
            (issue (visualPath @ ''.fontStyle'')
               (''Font style must be one of: '' @ join '', '' validFontStyles @ '', got: ''
                  @ fontStyle v)
               Error) errors;
          errors = push_if (width v \<le> 0)
            (issue (visualPath @ ''.width'')
               (''Width must be greater than 0, got: '' @ numberToString h (width v))
               Error) errors;
          errors = push_if (height v \<le> 0)
            (issue (visualPath @ ''.height'')
               (''Height must be greater than 0, got: '' @ numberToString h (height v))
               Error) errors;
          warnings = push_if (x_pos v < 0)
            (issue (visualPath @ ''.x'')
               (''X position is negative: '' @ numberToString h (x_pos v)) Warning) warnings;
          warnings = push_if (y_pos v < 0)
            (issue (visualPath @ ''.y'')
               (''Y position is negative: '' @ numberToString h (y_pos v)) Warning) warnings;
          warnings = push_if
            (animated element \<and> truthy_number (animationSpeed element)
               \<and> (animationSpeed element < 1 / 10 \<or> animationSpeed element > 10))
            (issue (elementPath @ ''.animationSpeed'')
               (''Animation speed should be between 0.1 and 10.0, got: ''
                  @ numberToString h (animationSpeed element))
               Warning) warnings
      in (errors, warnings))"

text \<open>What the rules push for one element when both arrays start empty.\<close>

definition element_errors :: "host \<Rightarrow> layout_data \<Rightarrow> nat \<Rightarrow> element \<Rightarrow> validation_error list" where
  "element_errors h l i e = fst (element_rules h l (i, e) ([], []))"

definition element_warnings :: "host \<Rightarrow> layout_data \<Rightarrow> nat \<Rightarrow> element \<Rightarrow> validation_error list" where
  "element_warnings h l i e = snd (element_rules h l (i, e) ([], []))"

text \<open>One schema error, as it is pushed onto \<open>errors\<close>.\<close>

definition schema_issue :: "ajv_error \<Rightarrow> validation_error" where
  "schema_issue e =
     issue (if truthy_string (instancePath e) then instancePath e else ''root'')
       (case ajv_message e of
          None \<Rightarrow> ''Unknown validation error''
        | Some m \<Rightarrow> if truthy_string m then m else ''Unknown validation error'')
       Error"

text \<open>\<open>layout.elements\<close> is an array, so the guard of the custom rules always passes.\<close>

definition validateLayout :: "host \<Rightarrow> layout_data \<Rightarrow> validation_result" where
  "validateLayout h layout =
     (let valid = fst (validateSchema h layout);
          schemaErrors = (case snd (validateSchema h layout) of None \<Rightarrow> [] | Some es \<Rightarrow> es);
          errors = (if \<not> valid then map schema_issue schemaErrors else []);
          res = foldl (\<lambda>acc ie. element_rules h layout ie acc) (errors, [])
                  (enumerate 0 (elements layout))
      in \<lparr>isValid = (length (fst res) = 0), errors = fst res, warnings = snd res\<rparr>)"

text \<open>\<open>validateElement\<close>: the required fields of one element and the uniqueness of its id.
  \<open>element.visual\<close> is an object, so the check for its presence never fires.\<close>

definition validateElement :: "element \<Rightarrow> element list \<Rightarrow> validation_result" where
  "validateElement element allElements =
     (let errors = [];
          errors = push_if (\<not> truthy_string (id_el element))
            (issue ''id'' ''Element ID is required'' Error) errors;
          errors = push_if (\<not> truthy_string (type_el element))
            (issue ''type'' ''Element type is required'' Error) errors;
          errors = push_if (\<not> truthy_string (sensor element))
            (issue ''sensor'' ''Sensor binding is required'' Error) errors;
          duplicateCount = length (filter (\<lambda>el. id_el el = id_el element) allElements);
          errors = push_if (duplicateCount > 1)
            (issue ''id'' (''Duplicate element ID: '' @ id_el element) Error) errors
      in \<lparr>isValid = (length errors = 0), errors = errors, warnings = []\<rparr>)"

section \<open>The editor store\<close>

record point =
  px :: real
  py :: real

record editor_store =
  layout :: layout_data
  selectedElementIds :: "string list"
  clipboard :: "element list"
  currentTool :: string
  snapToGrid :: bool
  gridSize :: real
  zoom :: real
  pan :: point
  showDebug :: bool
  previewMode :: bool
  validationResult :: "validation_result option"
  canUndo :: bool
  canRedo :: bool
  canvasWidth :: real
  canvasHeight :: real
  showBackground :: bool
  backgroundImage :: string

definition defaultLayout :: layout_data where
  "defaultLayout = \<lparr>version = ''1.0'', elements = [], meta = None\<rparr>"

definition initial_store :: editor_store where
  "initial_store = \<lparr>
     layout = defaultLayout, selectedElementIds = [], clipboard = [],
     currentTool = ''select'', snapToGrid = True, gridSize = 20, zoom = 1,
     pan = \<lparr>px = 0, py = 0\<rparr>, showDebug = False, previewMode = False,
     validationResult = None, canUndo = False, canRedo = False,
     canvasWidth = 1920, canvasHeight = 1080, showBackground = False,
     backgroundImage = []\<rparr>"

text \<open>
  Every action takes the store and returns the store it leaves behind. The store's own
  \<open>validateLayout\<close> action also returns the result it caches.
\<close>

definition store_validateLayout :: "host \<Rightarrow> editor_store \<Rightarrow> validation_result \<times> editor_store" where
  "store_validateLayout h s =
     (let result = validateLayout h (layout s)
      in (result, s\<lparr>validationResult := Some result\<rparr>))"

definition setLayout :: "host \<Rightarrow> layout_data \<Rightarrow> editor_store \<Rightarrow> editor_store" where
  "setLayout h l s = snd (store_validateLayout h (s\<lparr>layout := l\<rparr>))"

text \<open>\<open>{ ...el, ...updates }\<close>\<close>

definition merge_updates :: "element \<Rightarrow> element_updates \<Rightarrow> element" where
  "merge_updates el u = \<lparr>
     id_el = (case id_upd u of None \<Rightarrow> id_el el | Some a \<Rightarrow> a),
     type_el = (case type_upd u of None \<Rightarrow> type_el el | Some a \<Rightarrow> a),
     sensor = (case sensor_upd u of None \<Rightarrow> sensor el | Some a \<Rightarrow> a),
     visual = (case visual_upd u of None \<Rightarrow> visual el | Some a \<Rightarrow> a),
     animated = (case animated_upd u of None \<Rightarrow> animated el | Some a \<Rightarrow> a),
     animationSpeed = (case animationSpeed_upd u of None \<Rightarrow> animationSpeed el | Some a \<Rightarrow> a)\<rparr>"

definition updateElement :: "host \<Rightarrow> string \<Rightarrow> element_updates \<Rightarrow> editor_store \<Rightarrow> editor_store" where
  "updateElement h i updates s =
     (let newLayout = (layout s)\<lparr>elements :=
            map (\<lambda>el. if id_el el = i then merge_updates el updates else el)
              (elements (layout s))\<rparr>
      in snd (store_validateLayout h (s\<lparr>layout := newLayout\<rparr>)))"

definition addElement :: "host \<Rightarrow> element \<Rightarrow> editor_store \<Rightarrow> editor_store" where
  "addElement h element s =
     (let newLayout = (layout s)\<lparr>elements := elements (layout s) @ [element]\<rparr>
      in snd (store_validateLayout h (s\<lparr>layout := newLayout\<rparr>)))"

text \<open>
  \<open>createElement\<close> at the clock reading \<open>now\<close> (\<open>Date.now()\<close>). The body has no
  \<open>return\<close> with a value, so the call yields \<open>undefined\<close>: the first component is \<open>None\<close>.
  For a name inherited from \<open>Object.prototype\<close> the guard passes and reading
  \<open>suggestedSensors[0]\<close> or \<open>defaultSize.width\<close> of the inherited member throws.
\<close>

definition createElement ::
  "host \<Rightarrow> nat \<Rightarrow> string \<Rightarrow> real \<Rightarrow> real \<Rightarrow> string option \<Rightarrow> editor_store
     \<Rightarrow> error + (string option \<times> editor_store)" where
  "createElement h now t x y sens s =
     (case lookup_definition t of
        Undefined \<Rightarrow> Inr (None, s)
      | Inherited \<Rightarrow> Inl TypeError
      | Own definition \<Rightarrow>
          (let element = \<lparr>
                 id_el = t @ ''_'' @ dec now,
                 type_el = t,
                 sensor =
                   (case sens of
                      Some a \<Rightarrow>
                        if truthy_string a then a
                        else (case suggestedSensors definition of
                                [] \<Rightarrow> ''CPU_Utilization''
                              | b # _ \<Rightarrow> if truthy_string b then b else ''CPU_Utilization'')
                    | None \<Rightarrow>
                        (case suggestedSensors definition of
                           [] \<Rightarrow> ''CPU_Utilization''
                         | b # _ \<Rightarrow> if truthy_string b then b else ''CPU_Utilization'')),
                 visual = \<lparr>
                   x_pos = x, y_pos = y,
                   width = sz_width (defaultSize definition),
                   height = sz_height (defaultSize definition),
                   backgroundColor = ''#333333'',
                   foregroundColor = ''#ffffff'',
                   needleColor = ''#00ff00'',
                   opacity = 1, visible = True, showText = True,
                   fontFamily = ''Consolas'', fontSize = 12,
                   fontWeight = ''normal'', fontStyle = ''normal''\<rparr>,
                 animated = False,
                 animationSpeed = 1\<rparr>
           in Inr (None, addElement h element s)))"

definition removeElement :: "host \<Rightarrow> string \<Rightarrow> editor_store \<Rightarrow> editor_store" where
  "removeElement h i s =
     (let newLayout = (layout s)\<lparr>elements :=
            filter (\<lambda>el. id_el el \<noteq> i) (elements (layout s))\<rparr>
      in snd (store_validateLayout h
           (s\<lparr>layout := newLayout,
              selectedElementIds :=
                filter (\<lambda>selectedId. selectedId \<noteq> i) (selectedElementIds s)\<rparr>)))"

definition duplicateElement :: "host \<Rightarrow> nat \<Rightarrow> string \<Rightarrow> editor_store \<Rightarrow> editor_store" where
  "duplicateElement h now i s =
     (case find (\<lambda>el. id_el el = i) (elements (layout s)) of
        Some element \<Rightarrow>
          addElement h
            (element\<lparr>id_el := id_el element @ ''_copy_'' @ dec now,
               visual := (visual element)\<lparr>x_pos := x_pos (visual element) + 20,
                                          y_pos := y_pos (visual element) + 20\<rparr>\<rparr>) s
      | None \<Rightarrow> s)"

definition selectElement :: "string \<Rightarrow> editor_store \<Rightarrow> editor_store" where
  "selectElement i s = s\<lparr>selectedElementIds := [i]\<rparr>"

definition selectMultiple :: "string list \<Rightarrow> editor_store \<Rightarrow> editor_store" where
  "selectMultiple ids s = s\<lparr>selectedElementIds := ids\<rparr>"

definition clearSelection :: "editor_store \<Rightarrow> editor_store" where
  "clearSelection s = s\<lparr>selectedElementIds := []\<rparr>"

definition toggleSelection :: "string \<Rightarrow> editor_store \<Rightarrow> editor_store" where
  "toggleSelection i s =
     (let isSelected = (i \<in> set (selectedElementIds s))
      in if isSelected
         then s\<lparr>selectedElementIds :=
                  filter (\<lambda>selectedId. selectedId \<noteq> i) (selectedElementIds s)\<rparr>
         else s\<lparr>selectedElementIds := selectedElementIds s @ [i]\<rparr>)"

definition setZoom :: "real \<Rightarrow> editor_store \<Rightarrow> editor_store" where
  "setZoom z s = s\<lparr>zoom := max (1 / 10) (min 5 z)\<rparr>"

definition setGridSize :: "real \<Rightarrow> editor_store \<Rightarrow> editor_store" where
  "setGridSize g s = s\<lparr>gridSize := max 5 (min 100 g)\<rparr>"

definition copySelected :: "editor_store \<Rightarrow> editor_store" where
  "copySelected s =
     s\<lparr>clipboard := filter (\<lambda>el. id_el el \<in> set (selectedElementIds s)) (elements (layout s))\<rparr>"

text \<open>
  \<open>paste\<close> reads the clock once for every clipboard element, inside the \<open>map\<close> callback:
  \<open>now k\<close> is the reading taken for the element at position \<open>k\<close>.
\<close>

definition paste :: "host \<Rightarrow> (nat \<Rightarrow> nat) \<Rightarrow> editor_store \<Rightarrow> editor_store" where
  "paste h now s =
     (let pastedElements =
            map (\<lambda>kel. (snd kel)\<lparr>
                   id_el := id_el (snd kel) @ ''_paste_'' @ dec (now (fst kel)),
                   visual := (visual (snd kel))\<lparr>x_pos := x_pos (visual (snd kel)) + 20,
                                               y_pos := y_pos (visual (snd kel)) + 20\<rparr>\<rparr>)
              (enumerate 0 (clipboard s));
          newLayout = (layout s)\<lparr>elements := elements (layout s) @ pastedElements\<rparr>
      in snd (store_validateLayout h (s\<lparr>layout := newLayout\<rparr>)))"

definition resetLayout :: "host \<Rightarrow> editor_store \<Rightarrow> editor_store" where
  "resetLayout h s =
     snd (store_validateLayout h (s\<lparr>layout := defaultLayout, selectedElementIds := []\<rparr>))"

section \<open>The canvas\<close>

record resize_start =
  rs_x :: real
  rs_y :: real
  rs_width :: real
  rs_height :: real

record canvas_state =
  isDragging :: bool
  isResizing :: bool
  dragStart :: point
  resizeStart :: resize_start
  resizeHandle :: string

text \<open>A mouse event: the pointer position, and whether \<open>e.target === e.currentTarget\<close>.\<close>

record mouse_event =
  clientX :: real
  clientY :: real
  target_is_currentTarget :: bool

record dom_rect =
  rect_left :: real
  rect_top :: real

text \<open>
  \<open>handleCanvasClick\<close>; \<open>rect\<close> is \<open>canvasRef.current?.getBoundingClientRect()\<close>. An error
  thrown by \<open>createElement\<close> leaves the handler.
\<close>

definition handleCanvasClick ::
  "host \<Rightarrow> nat \<Rightarrow> dom_rect option \<Rightarrow> mouse_event \<Rightarrow> editor_store \<Rightarrow> error + editor_store" where
  "handleCanvasClick h now rect e s =
     (if target_is_currentTarget e then
        if currentTool s = ''select'' then Inr (selectElement '''' s)
        else
          (case rect of
             Some r \<Rightarrow>
               (let x = (clientX e - rect_left r - px (pan s)) / zoom s;
                    y = (clientY e - rect_top r - py (pan s)) / zoom s;
                    snappedX = (if snapToGrid s then Math_round (x / gridSize s) * gridSize s else x);
                    snappedY = (if snapToGrid s then Math_round (y / gridSize s) * gridSize s else y)
                in (case createElement h now (currentTool s) snappedX snappedY None s of
                      Inl err \<Rightarrow> Inl err
                    | Inr r \<Rightarrow> Inr (snd r)))
           | None \<Rightarrow> Inr s)
      else Inr s)"

definition handleResizeStart ::
  "mouse_event \<Rightarrow> string \<Rightarrow> string \<Rightarrow> editor_store \<Rightarrow> canvas_state \<Rightarrow> canvas_state" where
  "handleResizeStart e elementId handle s cs =
     (case find (\<lambda>el. id_el el = elementId) (elements (layout s)) of
        Some element \<Rightarrow>
          cs\<lparr>isResizing := True, resizeHandle := handle,
             resizeStart := \<lparr>rs_x = clientX e, rs_y = clientY e,
                             rs_width = width (visual element),
                             rs_height = height (visual element)\<rparr>\<rparr>
      | None \<Rightarrow> cs)"

text \<open>The size a resize step computes from the start size, the handle and the pointer.\<close>

definition resize_size :: "canvas_state \<Rightarrow> mouse_event \<Rightarrow> real \<Rightarrow> real \<times> real" where
  "resize_size cs e z =
     (let deltaX = (clientX e - rs_x (resizeStart cs)) / z;
          deltaY = (clientY e - rs_y (resizeStart cs)) / z;
          newWidth = rs_width (resizeStart cs);
          newHeight = rs_height (resizeStart cs);
          newWidth = (if CHR ''e'' \<in> set (resizeHandle cs) then newWidth + deltaX else newWidth);
          newWidth = (if CHR ''w'' \<in> set (resizeHandle cs) then newWidth - deltaX else newWidth);
          newHeight = (if CHR ''s'' \<in> set (resizeHandle cs) then newHeight + deltaY else newHeight);
          newHeight = (if CHR ''n'' \<in> set (resizeHandle cs) then newHeight - deltaY else newHeight);
          newWidth = max 20 newWidth;
          newHeight = max 20 newHeight
      in (newWidth, newHeight))"

definition handleResizeMove ::
  "host \<Rightarrow> canvas_state \<Rightarrow> mouse_event \<Rightarrow> editor_store \<Rightarrow> editor_store" where
  "handleResizeMove h cs e s =
     (if isResizing cs \<and> length (selectedElementIds s) = 1 then
        (case find (\<lambda>el. id_el el = hd (selectedElementIds s)) (elements (layout s)) of
           Some element \<Rightarrow>
             (let wh = resize_size cs e (zoom s)
              in updateElement h (id_el element)
                   \<lparr>id_upd = None, type_upd = None, sensor_upd = None,
                    visual_upd = Some ((visual element)\<lparr>width := fst wh, height := snd wh\<rparr>),
                    animated_upd = None, animationSpeed_upd = None\<rparr> s)
         | None \<Rightarrow> s)
      else s)"

definition handleCanvasMouseMove ::
  "host \<Rightarrow> canvas_state \<Rightarrow> mouse_event \<Rightarrow> editor_store \<Rightarrow> editor_store" where
  "handleCanvasMouseMove h cs e s =
     (if isResizing cs \<and> length (selectedElementIds s) = 1 then handleResizeMove h cs e s else s)"

definition handleCanvasMouseUp :: "canvas_state \<Rightarrow> canvas_state" where
  "handleCanvasMouseUp cs = cs\<lparr>isDragging := False, isResizing := False, resizeHandle := []\<rparr>"

section \<open>Sequences of calls\<close>

text \<open>
  The calls that generate element ids, each with the clock readings it takes. A call that
  throws leaves the store as it was.
\<close>

datatype id_call =
  CreateElement nat string real real "string option"
| DuplicateElement nat string
| Paste "nat \<Rightarrow> nat"

fun call :: "host \<Rightarrow> id_call \<Rightarrow> editor_store \<Rightarrow> editor_store" where
  "call h (CreateElement now t x y sens) s =
     (case createElement h now t x y sens s of Inl err \<Rightarrow> s | Inr r \<Rightarrow> snd r)"
| "call h (DuplicateElement now i) s = duplicateElement h now i s"
| "call h (Paste now) s = paste h now s"

fun calls :: "host \<Rightarrow> id_call list \<Rightarrow> editor_store \<Rightarrow> editor_store" where
  "calls h [] s = s"
| "calls h (c # cs) s = calls h cs (call h c s)"

text \<open>The selection calls.\<close>

datatype select_call = SelectElement string | SelectMultiple "string list" | ToggleSelection string

fun select_step :: "select_call \<Rightarrow> editor_store \<Rightarrow> editor_store" where
  "select_step (SelectElement i) s = selectElement i s"
| "select_step (SelectMultiple ids) s = selectMultiple ids s"
| "select_step (ToggleSelection i) s = toggleSelection i s"

text \<open>The clock readings a call takes when the clipboard holds \<open>n\<close> elements.\<close>

fun readings :: "nat \<Rightarrow> id_call \<Rightarrow> nat list" where
  "readings n (CreateElement now t x y sens) = [now]"
| "readings n (DuplicateElement now i) = [now]"
| "readings n (Paste now) = map now [0..<n]"

text \<open>
  The clock advances: no call reads a value below \<open>lo\<close>, and every call reads values
  above all readings of the calls before it.
\<close>

fun clock_advances :: "nat \<Rightarrow> nat \<Rightarrow> id_call list \<Rightarrow> bool" where
  "clock_advances n lo [] = True"
| "clock_advances n lo (c # cs) =
     ((\<forall>t \<in> set (readings n c). lo \<le> t)
      \<and> clock_advances n (fold max (map Suc (readings n c)) lo) cs)"

text \<open>
  Reading back a decimal: the characters after the last underscore of an id, and the
  number they write, if they are digits.
\<close>

definition digit_val :: "char \<Rightarrow> nat option" where
  "digit_val c =
     (if 48 \<le> (of_char c :: nat) \<and> (of_char c :: nat) \<le> 57
      then Some (of_char c - 48) else None)"

fun undec_from :: "nat option \<Rightarrow> string \<Rightarrow> nat option" where
  "undec_from acc [] = acc"
| "undec_from acc (c # cs) =
     (case (acc, digit_val c) of
        (Some a, Some d) \<Rightarrow> undec_from (Some (10 * a + d)) cs
      | _ \<Rightarrow> None)"

definition undec :: "string \<Rightarrow> nat option" where
  "undec ds = (if ds = [] then None else undec_from (Some 0) ds)"

definition after_last_underscore :: "string \<Rightarrow> string" where
  "after_last_underscore i = rev (takeWhile (\<lambda>c. c \<noteq> CHR ''_'') (rev i))"

text \<open>An id that does not end in an underscore followed by a clock reading of \<open>lo\<close> or later.\<close>

definition stamped_before :: "nat \<Rightarrow> string \<Rightarrow> bool" where
  "stamped_before lo i =
     (if CHR ''_'' \<in> set i
      then (case undec (after_last_underscore i) of None \<Rightarrow> True | Some t \<Rightarrow> t < lo)
      else True)"

text \<open>
  A store whose element ids are pairwise distinct, whose clipboard ids are pairwise
  distinct, and none of whose element ids carries a stamp of \<open>lo\<close> or later.
\<close>

definition stamped_store :: "nat \<Rightarrow> editor_store \<Rightarrow> bool" where
  "stamped_store lo s =
     (distinct (map id_el (elements (layout s)))
      \<and> distinct (map id_el (clipboard s))
      \<and> (\<forall>e \<in> set (elements (layout s)). stamped_before lo (id_el e)))"

section \<open>Sample data\<close>

text \<open>A host whose schema accepts every document, and one well-formed element.\<close>

definition permissive_host :: host where
  "permissive_host = \<lparr>validateSchema = (\<lambda>l. (True, None)), numberToString = (\<lambda>r. ''0'')\<rparr>"

definition gauge_1 :: element where
  "gauge_1 = \<lparr>
     id_el = ''gauge_1'', type_el = ''gauge'', sensor = ''CPU_Utilization'',
     visual = \<lparr>
       x_pos = 100, y_pos = 100, width = 150, height = 150,
       backgroundColor = ''#333333'', foregroundColor = ''#ffffff'',
       needleColor = ''#00ff00'', opacity = 1, visible = True, showText = True,
       fontFamily = ''Consolas'', fontSize = 12, fontWeight = ''normal'',
       fontStyle = ''normal''\<rparr>,
     animated = False, animationSpeed = 1\<rparr>"

definition element_ids :: "editor_store \<Rightarrow> string set" where
  "element_ids s = id_el ` set (elements (layout s))"

section \<open>Properties of the store\<close>

subsection \<open>Frame lemmas\<close>

lemma validate_keeps [simp]:
  "layout (snd (store_validateLayout h s)) = layout s"
  "selectedElementIds (snd (store_validateLayout h s)) = selectedElementIds s"
  "clipboard (snd (store_validateLayout h s)) = clipboard s"
  "validationResult (snd (store_validateLayout h s)) = Some (validateLayout h (layout s))"
  by (simp_all add: store_validateLayout_def Let_def)




lemma elements_addElement:
  "elements (layout (addElement h el s)) = elements (layout s) @ [el]"
  by (simp add: addElement_def Let_def)

lemma addElement_keeps [simp]:
  "selectedElementIds (addElement h el s) = selectedElementIds s"
  "clipboard (addElement h el s) = clipboard s"
  by (simp_all add: addElement_def Let_def)


subsection \<open>Resizing\<close>


text \<open>The zoom factor starts at 1 and \<open>setZoom\<close> keeps it between 0.1 and 5.\<close>

lemma setZoom_range: "1 / 10 \<le> zoom (setZoom z s) \<and> zoom (setZoom z s) \<le> 5"
  by (simp add: setZoom_def)

lemma setZoom_nonzero: "zoom (setZoom z s) \<noteq> 0"
  using setZoom_range[of z s] by auto




subsection \<open>Removing an element\<close>

lemma filter_other_ids_id:
  "\<forall>el \<in> set es. id_el el \<noteq> i \<Longrightarrow> filter (\<lambda>el. id_el el \<noteq> i) es = es"
  by (induction es) auto

lemma layout_removeElement:
  "layout (removeElement h i s) =
     (layout s)\<lparr>elements := filter (\<lambda>el. id_el el \<noteq> i) (elements (layout s))\<rparr>"
  by (simp add: removeElement_def Let_def)

lemma selection_removeElement:
  "selectedElementIds (removeElement h i s) = filter (\<lambda>j. j \<noteq> i) (selectedElementIds s)"
  by (simp add: removeElement_def Let_def)

lemma removeElement_twice: "removeElement h i (removeElement h i s) = removeElement h i s"
  by (simp add: removeElement_def Let_def store_validateLayout_def)

text \<open>
  Claim C6, as the code has it. \<open>removeElement\<close> removes every element with the id from the
  document and the id from the selection, and leaves the clipboard as it was. When no
  element has the id the document is unchanged; the selection is unchanged when the id is
  not selected. A second removal of the same id changes nothing.
\<close>

theorem removeElement_effect:
  "elements (layout (removeElement h i s)) = filter (\<lambda>el. id_el el \<noteq> i) (elements (layout s))
   \<and> i \<notin> element_ids (removeElement h i s)
   \<and> selectedElementIds (removeElement h i s) = filter (\<lambda>j. j \<noteq> i) (selectedElementIds s)
   \<and> i \<notin> set (selectedElementIds (removeElement h i s))
   \<and> clipboard (removeElement h i s) = clipboard s
   \<and> (i \<notin> element_ids s \<longrightarrow> layout (removeElement h i s) = layout s)
   \<and> (i \<notin> set (selectedElementIds s) \<longrightarrow>
        selectedElementIds (removeElement h i s) = selectedElementIds s)
   \<and> removeElement h i (removeElement h i s) = removeElement h i s"
proof (intro conjI impI)
  show "elements (layout (removeElement h i s))
      = filter (\<lambda>el. id_el el \<noteq> i) (elements (layout s))"
    by (simp add: layout_removeElement)
  show "i \<notin> element_ids (removeElement h i s)"
    by (auto simp: element_ids_def layout_removeElement)
  show "selectedElementIds (removeElement h i s) = filter (\<lambda>j. j \<noteq> i) (selectedElementIds s)"
    by (rule selection_removeElement)
  show "i \<notin> set (selectedElementIds (removeElement h i s))"
    by (simp add: selection_removeElement)
  show "clipboard (removeElement h i s) = clipboard s"
    by (simp add: removeElement_def Let_def)
  show "removeElement h i (removeElement h i s) = removeElement h i s"
    by (rule removeElement_twice)
next
  assume "i \<notin> element_ids s"
  then have "\<forall>el \<in> set (elements (layout s)). id_el el \<noteq> i"
    by (auto simp: element_ids_def)
  then show "layout (removeElement h i s) = layout s"
    by (simp add: layout_removeElement filter_other_ids_id)
next
  assume "i \<notin> set (selectedElementIds s)"
  then have "filter (\<lambda>j. j \<noteq> i) (selectedElementIds s) = selectedElementIds s"
    by (induction "selectedElementIds s") (auto simp: filter_id_conv)
  then show "selectedElementIds (removeElement h i s) = selectedElementIds s"
    by (simp add: selection_removeElement)
qed

text \<open>Removing an id that is neither in the document nor selected, and one that is both.\<close>

theorem removeElement_effect_witness:
  "''gauge_2'' \<notin> element_ids
      (initial_store\<lparr>layout := defaultLayout\<lparr>elements := [gauge_1]\<rparr>,
         selectedElementIds := [''gauge_1'']\<rparr>)
   \<and> layout (removeElement permissive_host ''gauge_2''
        (initial_store\<lparr>layout := defaultLayout\<lparr>elements := [gauge_1]\<rparr>,
           selectedElementIds := [''gauge_1'']\<rparr>))
      = defaultLayout\<lparr>elements := [gauge_1]\<rparr>
   \<and> selectedElementIds (removeElement permissive_host ''gauge_2''
        (initial_store\<lparr>layout := defaultLayout\<lparr>elements := [gauge_1]\<rparr>,
           selectedElementIds := [''gauge_1'']\<rparr>)) = [''gauge_1'']
   \<and> elements (layout (removeElement permissive_host ''gauge_1''
        (initial_store\<lparr>layout := defaultLayout\<lparr>elements := [gauge_1]\<rparr>,
           selectedElementIds := [''gauge_1'']\<rparr>))) = []
   \<and> selectedElementIds (removeElement permissive_host ''gauge_1''
        (initial_store\<lparr>layout := defaultLayout\<lparr>elements := [gauge_1]\<rparr>,
           selectedElementIds := [''gauge_1'']\<rparr>)) = []"
  using removeElement_effect [of permissive_host "''gauge_2''"
      "initial_store\<lparr>layout := defaultLayout\<lparr>elements := [gauge_1]\<rparr>,
         selectedElementIds := [''gauge_1'']\<rparr>"]
    removeElement_effect [of permissive_host "''gauge_1''"
      "initial_store\<lparr>layout := defaultLayout\<lparr>elements := [gauge_1]\<rparr>,
         selectedElementIds := [''gauge_1'']\<rparr>"]
  by (simp add: element_ids_def initial_store_def defaultLayout_def gauge_1_def)

text \<open>
  Claim C6 as stated fails where the selection holds an id of no element: after a click
  on the empty canvas in select mode the selection is the empty id, no element has that
  id, and removing it changes the selection.
\<close>

theorem removeElement_noop_counterexample:
  "handleCanvasClick permissive_host 0 None
      \<lparr>clientX = 0, clientY = 0, target_is_currentTarget = True\<rparr> initial_store
     = Inr (selectElement '''' initial_store)
   \<and> '''' \<notin> element_ids (selectElement '''' initial_store)
   \<and> selectedElementIds (selectElement '''' initial_store) = ['''']
   \<and> selectedElementIds (removeElement permissive_host '''' (selectElement '''' initial_store))
       \<noteq> selectedElementIds (selectElement '''' initial_store)"
  by (simp add: handleCanvasClick_def selectElement_def initial_store_def defaultLayout_def
      element_ids_def selection_removeElement)

subsection \<open>Selection\<close>

text \<open>
  Claim C2, as the code has it. \<open>selectElement\<close> makes the selection exactly the id it is
  given, \<open>selectMultiple\<close> exactly the ids it is given, and \<open>toggleSelection\<close> removes the
  id when it is selected and appends it otherwise; none of them reads or changes the
  document. So the selection holds ids of existing elements after a call when the ids
  passed in are ids of existing elements (for \<open>toggleSelection\<close>: when the selection did
  so before, and the id exists or is being deselected).
\<close>

theorem selection_within_document:
  "selectedElementIds (selectElement i s) = [i]
   \<and> selectedElementIds (selectMultiple ids s) = ids
   \<and> selectedElementIds (toggleSelection i s) =
        (if i \<in> set (selectedElementIds s)
         then filter (\<lambda>j. j \<noteq> i) (selectedElementIds s) else selectedElementIds s @ [i])
   \<and> layout (select_step c s) = layout s
   \<and> (i \<in> element_ids s \<longrightarrow>
        set (selectedElementIds (selectElement i s)) \<subseteq> element_ids (selectElement i s))
   \<and> (set ids \<subseteq> element_ids s \<longrightarrow>
        set (selectedElementIds (selectMultiple ids s)) \<subseteq> element_ids (selectMultiple ids s))
   \<and> (set (selectedElementIds s) \<subseteq> element_ids s
        \<and> (i \<in> element_ids s \<or> i \<in> set (selectedElementIds s)) \<longrightarrow>
        set (selectedElementIds (toggleSelection i s)) \<subseteq> element_ids (toggleSelection i s))"
proof (intro conjI impI)
  show "layout (select_step c s) = layout s"
    by (cases c) (simp_all add: selectElement_def selectMultiple_def toggleSelection_def Let_def)
qed (auto simp: selectElement_def selectMultiple_def toggleSelection_def Let_def element_ids_def)

theorem selection_within_document_witness:
  "''gauge_1'' \<in> element_ids (initial_store\<lparr>layout := defaultLayout\<lparr>elements := [gauge_1]\<rparr>\<rparr>)
   \<and> set (selectedElementIds (selectElement ''gauge_1''
        (initial_store\<lparr>layout := defaultLayout\<lparr>elements := [gauge_1]\<rparr>\<rparr>)))
      \<subseteq> element_ids (selectElement ''gauge_1''
           (initial_store\<lparr>layout := defaultLayout\<lparr>elements := [gauge_1]\<rparr>\<rparr>))
   \<and> set (selectedElementIds (selectMultiple [''gauge_1'']
        (initial_store\<lparr>layout := defaultLayout\<lparr>elements := [gauge_1]\<rparr>\<rparr>)))
      \<subseteq> element_ids (selectMultiple [''gauge_1'']
           (initial_store\<lparr>layout := defaultLayout\<lparr>elements := [gauge_1]\<rparr>\<rparr>))
   \<and> selectedElementIds (toggleSelection ''gauge_1''
        (initial_store\<lparr>layout := defaultLayout\<lparr>elements := [gauge_1]\<rparr>\<rparr>)) = [''gauge_1'']
   \<and> set (selectedElementIds (toggleSelection ''gauge_1''
        (initial_store\<lparr>layout := defaultLayout\<lparr>elements := [gauge_1]\<rparr>\<rparr>)))
      \<subseteq> element_ids (toggleSelection ''gauge_1''
           (initial_store\<lparr>layout := defaultLayout\<lparr>elements := [gauge_1]\<rparr>\<rparr>))"
  using selection_within_document [of "''gauge_1''"
      "initial_store\<lparr>layout := defaultLayout\<lparr>elements := [gauge_1]\<rparr>\<rparr>" "[''gauge_1'']"
      "SelectElement ''gauge_1''"]
  by (simp add: element_ids_def initial_store_def defaultLayout_def gauge_1_def
      selectElement_def selectMultiple_def toggleSelection_def Let_def)

text \<open>
  Claim C2 as stated fails: selecting an id that no element has puts that id into the
  selection, and so does a click on the empty canvas in select mode, which selects the
  empty id.
\<close>

theorem selection_dangling_counterexample:
  "\<not> set (selectedElementIds (select_step (SelectElement ''ghost'') initial_store))
       \<subseteq> element_ids (select_step (SelectElement ''ghost'') initial_store)
   \<and> \<not> set (selectedElementIds (select_step (SelectMultiple [''ghost'']) initial_store))
       \<subseteq> element_ids (select_step (SelectMultiple [''ghost'']) initial_store)
   \<and> \<not> set (selectedElementIds (select_step (ToggleSelection ''ghost'') initial_store))
       \<subseteq> element_ids (select_step (ToggleSelection ''ghost'') initial_store)
   \<and> (case handleCanvasClick permissive_host 0 None
              \<lparr>clientX = 0, clientY = 0, target_is_currentTarget = True\<rparr> initial_store of
         Inl err \<Rightarrow> False
       | Inr s \<Rightarrow> selectedElementIds s = [''''] \<and> element_ids s = {})"
  by (simp add: handleCanvasClick_def selectElement_def selectMultiple_def toggleSelection_def
      initial_store_def defaultLayout_def element_ids_def Let_def)

subsection \<open>Creating an element\<close>

lemma lookup_gauge:
  "lookup_definition ''gauge'' = Own \<lparr>type_def = ''gauge'',
     defaultSize = \<lparr>sz_width = 150, sz_height = 150\<rparr>,
     suggestedSensors = [''CPU_Utilization'', ''GPU_Utilization'', ''Memory_Usage''],
     requiredProperties = [''needleColor''],
     optionalProperties = [''backgroundColor'', ''foregroundColor'']\<rparr>"
  by (simp add: lookup_definition_def ELEMENT_DEFINITIONS_def)

lemma dec_1000: "dec 1000 = ''1000''"
  by code_simp

text \<open>
  Claim C9, as the code has it. For a kind of the catalog, \<open>createElement\<close> appends one
  element to the end of the elements: its id is the kind, an underscore and the clock
  reading, its position is the one given, its size is the default size of the kind in the
  catalog. The validation result is recomputed for the new document. The call returns
  nothing (the action is declared \<open>void\<close>); the new id can be read off the last element.
\<close>

theorem createElement_appends:
  assumes "lookup_definition t = Own d"
  shows "\<exists>el s'. createElement h now t x y sens s = Inr (None, s')
    \<and> elements (layout s') = elements (layout s) @ [el]
    \<and> id_el el = t @ ''_'' @ dec now \<and> type_el el = t
    \<and> x_pos (visual el) = x \<and> y_pos (visual el) = y
    \<and> width (visual el) = sz_width (defaultSize d)
    \<and> height (visual el) = sz_height (defaultSize d)
    \<and> selectedElementIds s' = selectedElementIds s \<and> clipboard s' = clipboard s
    \<and> validationResult s' = Some (validateLayout h (layout s'))"
  using assms
  by (simp add: createElement_def Let_def elements_addElement)
     (simp add: addElement_def Let_def)

theorem createElement_appends_witness:
  "lookup_definition ''gauge'' = Own \<lparr>type_def = ''gauge'',
     defaultSize = \<lparr>sz_width = 150, sz_height = 150\<rparr>,
     suggestedSensors = [''CPU_Utilization'', ''GPU_Utilization'', ''Memory_Usage''],
     requiredProperties = [''needleColor''],
     optionalProperties = [''backgroundColor'', ''foregroundColor'']\<rparr>
   \<and> (\<exists>el s'. createElement permissive_host 1000 ''gauge'' 100 100 None initial_store
           = Inr (None, s')
        \<and> elements (layout s') = [el] \<and> id_el el = ''gauge_1000''
        \<and> width (visual el) = 150 \<and> height (visual el) = 150)"
  using createElement_appends [OF lookup_gauge, of permissive_host 1000 100 100 None initial_store]
  by (auto simp: lookup_gauge dec_1000 initial_store_def defaultLayout_def)

text \<open>
  Claim C9 as stated fails in its last part: the call returns \<open>undefined\<close>, not the id of
  the element it appended.
\<close>

theorem createElement_returns_counterexample:
  "(case createElement permissive_host 1000 ''gauge'' 100 100 None initial_store of
      Inl err \<Rightarrow> False
    | Inr r \<Rightarrow> map id_el (elements (layout (snd r))) = [''gauge_1000'']
        \<and> fst r = None \<and> fst r \<noteq> Some ''gauge_1000'')"
  by (simp add: createElement_def lookup_gauge Let_def elements_addElement dec_1000
      initial_store_def defaultLayout_def)

text \<open>
  Claim C10, as the code has it. For a kind whose lookup in the catalog object is
  \<open>undefined\<close> (the kind is no key of the catalog and no name inherited from
  \<open>Object.prototype\<close>), \<open>createElement\<close> returns without throwing and leaves the whole
  store as it was: no element is added, the selection and the cached validation result
  are the ones from before.
\<close>

theorem createElement_unknown_kind:
  assumes "lookup_definition t = Undefined"
  shows "createElement h now t x y sens s = Inr (None, s)"
  using assms by (simp add: createElement_def)

lemma lookup_widget: "lookup_definition ''widget'' = Undefined"
  by (simp add: lookup_definition_def ELEMENT_DEFINITIONS_def Object_prototype_keys_def)

theorem createElement_unknown_kind_witness:
  "lookup_definition ''widget'' = Undefined
   \<and> createElement permissive_host 1000 ''widget'' 100 100 None
        (initial_store\<lparr>layout := defaultLayout\<lparr>elements := [gauge_1]\<rparr>,
           selectedElementIds := [''gauge_1'']\<rparr>)
      = Inr (None, initial_store\<lparr>layout := defaultLayout\<lparr>elements := [gauge_1]\<rparr>,
           selectedElementIds := [''gauge_1'']\<rparr>)"
  using createElement_unknown_kind [OF lookup_widget, of permissive_host 1000 100 100 None
      "initial_store\<lparr>layout := defaultLayout\<lparr>elements := [gauge_1]\<rparr>,
         selectedElementIds := [''gauge_1'']\<rparr>"]
  by (simp add: lookup_widget)

text \<open>
  Claim C10 as stated fails for a kind that is no key of the catalog but names a member
  inherited from \<open>Object.prototype\<close>: \<open>ELEMENT_DEFINITIONS['toString']\<close> is a function, the
  guard lets it pass, and reading its \<open>suggestedSensors[0]\<close> throws.
\<close>

theorem createElement_inherited_counterexample:
  "map_of ELEMENT_DEFINITIONS ''toString'' = None
   \<and> createElement permissive_host 1000 ''toString'' 100 100 None initial_store = Inl TypeError"
  by (simp add: createElement_def lookup_definition_def ELEMENT_DEFINITIONS_def
      Object_prototype_keys_def)

section \<open>Properties of validation\<close>

subsection \<open>Decimal digits\<close>

lemma digit_val_digit_char: "d < 10 \<Longrightarrow> digit_val (digit_char d) = Some d"
  by (simp add: digit_val_def digit_char_def)

lemma undec_from_None: "undec_from None cs = None"
  by (cases cs) simp_all

lemma undec_from_snoc:
  "undec_from acc (cs @ [c]) =
     (case (undec_from acc cs, digit_val c) of
        (Some a, Some d) \<Rightarrow> Some (10 * a + d) | _ \<Rightarrow> None)"
proof (induction cs arbitrary: acc)
  case Nil
  show ?case by (cases acc; cases "digit_val c") simp_all
next
  case (Cons b cs)
  show ?case
    by (cases acc; cases "digit_val b") (simp_all add: Cons.IH undec_from_None)
qed

lemma dec_not_Nil: "dec n \<noteq> []"
  by (subst dec.simps) simp

lemma undec_from_dec: "undec_from (Some 0) (dec n) = Some n"
proof (induction n rule: dec.induct)
  case (1 n)
  show ?case
  proof (cases "n < 10")
    case True
    then show ?thesis
      by (subst dec.simps) (simp add: digit_val_digit_char)
  next
    case False
    with 1 have "undec_from (Some 0) (dec (n div 10)) = Some (n div 10)" by simp
    with False show ?thesis
      by (subst dec.simps) (simp add: undec_from_snoc digit_val_digit_char)
  qed
qed

lemma undec_dec: "undec (dec n) = Some n"
  by (simp add: undec_def dec_not_Nil undec_from_dec)

lemma dec_inject: "dec m = dec n \<longleftrightarrow> m = n"
proof
  assume "dec m = dec n"
  then have "undec (dec m) = undec (dec n)" by (rule arg_cong)
  then show "m = n" by (simp only: undec_dec option.inject)
next
  assume "m = n"
  then show "dec m = dec n" by (rule arg_cong)
qed

lemma digit_char_not_underscore: "d < 10 \<Longrightarrow> digit_char d \<noteq> CHR ''_''"
  by (auto simp: digit_char_def dest!: arg_cong[where f="of_char :: char \<Rightarrow> nat"])

lemma underscore_notin_dec: "CHR ''_'' \<notin> set (dec n)"
proof (induction n rule: dec.induct)
  case (1 n)
  show ?case
  proof (cases "n < 10")
    case True
    then show ?thesis
      using digit_char_not_underscore[of n] by (subst dec.simps) auto
  next
    case False
    with 1 have "CHR ''_'' \<notin> set (dec (n div 10))" by simp
    with False show ?thesis
      using digit_char_not_underscore[of "n mod 10"] by (subst dec.simps) auto
  qed
qed

lemma dec_0: "dec 0 = ''0''"
  by code_simp

lemma dec_1: "dec 1 = ''1''"
  by code_simp

subsection \<open>The validation rules\<close>

lemma push_if_append: "push_if c e (xs @ ys) = xs @ push_if c e ys"
  by (simp add: push_if_def)

lemma push_if_Nil_iff: "push_if c e xs = [] \<longleftrightarrow> \<not> c \<and> xs = []"
  by (simp add: push_if_def)

lemma element_rules_append:
  "element_rules h l ie (E @ E0, W @ W0) =
     (E @ fst (element_rules h l ie (E0, W0)), W @ snd (element_rules h l ie (E0, W0)))"
  by (simp add: element_rules_def Let_def push_if_append)

lemma element_rules_acc:
  "element_rules h l (i, e) (E, W) = (E @ element_errors h l i e, W @ element_warnings h l i e)"
  using element_rules_append[of h l "(i, e)" E "[]" W "[]"]
  by (simp add: element_errors_def element_warnings_def)

lemma foldl_element_rules:
  "foldl (\<lambda>acc ie. element_rules h l ie acc) (E, W) ies =
     (E @ concat (map (\<lambda>ie. element_errors h l (fst ie) (snd ie)) ies),
      W @ concat (map (\<lambda>ie. element_warnings h l (fst ie) (snd ie)) ies))"
proof (induction ies arbitrary: E W)
  case Nil
  show ?case by simp
next
  case (Cons ie ies)
  obtain i e where ie: "ie = (i, e)" by (cases ie)
  show ?case by (simp add: ie element_rules_acc Cons.IH)
qed

lemma validateLayout_eq:
  "validateLayout h l =
     (let errs =
            (if fst (validateSchema h l) then []
             else map schema_issue
                    (case snd (validateSchema h l) of None \<Rightarrow> [] | Some es \<Rightarrow> es))
            @ concat (map (\<lambda>ie. element_errors h l (fst ie) (snd ie)) (enumerate 0 (elements l)))
      in \<lparr>isValid = (errs = []), errors = errs,
          warnings = concat (map (\<lambda>ie. element_warnings h l (fst ie) (snd ie))
                               (enumerate 0 (elements l)))\<rparr>)"
  by (simp add: validateLayout_def Let_def foldl_element_rules)

lemma element_warnings_eq:
  "element_warnings h l i e =
     push_if (animated e \<and> truthy_number (animationSpeed e)
               \<and> (animationSpeed e < 1 / 10 \<or> animationSpeed e > 10))
       (issue (''elements['' @ dec i @ '']'' @ ''.animationSpeed'')
          (''Animation speed should be between 0.1 and 10.0, got: ''
             @ numberToString h (animationSpeed e)) Warning)
     (push_if (y_pos (visual e) < 0)
       (issue (''elements['' @ dec i @ '']'' @ ''.visual'' @ ''.y'')
          (''Y position is negative: '' @ numberToString h (y_pos (visual e))) Warning)
     (push_if (x_pos (visual e) < 0)
       (issue (''elements['' @ dec i @ '']'' @ ''.visual'' @ ''.x'')
          (''X position is negative: '' @ numberToString h (x_pos (visual e))) Warning)
     (push_if (fontSize (visual e) < 8 \<or> fontSize (visual e) > 72)
       (issue (''elements['' @ dec i @ '']'' @ ''.visual'' @ ''.fontSize'')
          (''Font size should be between 8 and 72 pixels, got: ''
             @ numberToString h (fontSize (visual e))) Warning)
     (push_if (truthy_string (sensor e) \<and> sensor e \<notin> set VALID_SENSOR_IDS)
       (issue (''elements['' @ dec i @ '']'' @ ''.sensor'')
          (''Unknown sensor ID: '' @ sensor e @ ''. Valid sensors: ''
             @ join '', '' VALID_SENSOR_IDS) Warning) []))))"
  by (simp add: element_warnings_def element_rules_def Let_def)

text \<open>The conditions under which the rules push no error for an element.\<close>

lemma element_errors_Nil_iff:
  "element_errors h l i e = [] \<longleftrightarrow>
     \<not> 1 < length (filter (\<lambda>el. id_el el = id_el e) (elements l))
     \<and> \<not> (truthy_string (backgroundColor (visual e))
           \<and> \<not> rx_test COLOR_REGEX (backgroundColor (visual e)))
     \<and> \<not> (truthy_string (foregroundColor (visual e))
           \<and> \<not> rx_test COLOR_REGEX (foregroundColor (visual e)))
     \<and> \<not> (truthy_string (needleColor (visual e))
           \<and> \<not> rx_test COLOR_REGEX (needleColor (visual e)))
     \<and> \<not> (opacity (visual e) < 0 \<or> opacity (visual e) > 1)
     \<and> fontWeight (visual e) \<in> set validFontWeights
     \<and> fontStyle (visual e) \<in> set validFontStyles
     \<and> \<not> width (visual e) \<le> 0 \<and> \<not> height (visual e) \<le> 0"
  unfolding element_errors_def element_rules_def Let_def fst_conv snd_conv push_if_Nil_iff
  by blast

lemma element_errors_duplicate_only:
  assumes "element_errors h l' j e = []"
    and "1 < length (filter (\<lambda>el. id_el el = id_el e) (elements l))"
  shows "element_errors h l i e =
     [issue (''elements['' @ dec i @ ''].id'') (''Duplicate element ID: '' @ id_el e) Error]"
proof -
  from assms(1) have c:
    "\<not> (truthy_string (backgroundColor (visual e))
           \<and> \<not> rx_test COLOR_REGEX (backgroundColor (visual e)))"
    "\<not> (truthy_string (foregroundColor (visual e))
           \<and> \<not> rx_test COLOR_REGEX (foregroundColor (visual e)))"
    "\<not> (truthy_string (needleColor (visual e))
           \<and> \<not> rx_test COLOR_REGEX (needleColor (visual e)))"
    "\<not> (opacity (visual e) < 0 \<or> opacity (visual e) > 1)"
    "fontWeight (visual e) \<in> set validFontWeights"
    "fontStyle (visual e) \<in> set validFontStyles"
    "\<not> width (visual e) \<le> 0" "\<not> height (visual e) \<le> 0"
    unfolding element_errors_Nil_iff by blast+
  show ?thesis
    unfolding element_errors_def element_rules_def Let_def fst_conv snd_conv
    using c assms(2) by (simp add: push_if_def)
qed


subsection \<open>The sample element is free of errors\<close>

lemma sample_colors:
  "rx_test COLOR_REGEX ''#333333''" "rx_test COLOR_REGEX ''#ffffff''"
  "rx_test COLOR_REGEX ''#00ff00''"
  by code_simp+

lemma gauge_1_no_errors:
  "element_errors h (defaultLayout\<lparr>elements := [gauge_1]\<rparr>) i gauge_1 = []"
  by (simp add: element_errors_Nil_iff gauge_1_def defaultLayout_def sample_colors
      validFontWeights_def validFontStyles_def del: rx_test.simps)

lemma gauge_1_variant_no_errors:
  "element_errors h (defaultLayout\<lparr>elements := [gauge_1\<lparr>sensor := t, animated := a, animationSpeed := r\<rparr>]\<rparr>) i
     (gauge_1\<lparr>sensor := t, animated := a, animationSpeed := r\<rparr>) = []"
  by (simp add: element_errors_Nil_iff gauge_1_def defaultLayout_def sample_colors
      validFontWeights_def validFontStyles_def del: rx_test.simps)

lemma dec_Suc_0: "dec (Suc 0) = ''1''"
  using dec_1 by simp

subsection \<open>Duplicate ids\<close>

text \<open>
  Claim C3. A document of exactly two elements that share the id \<open>gauge_1\<close> and are
  otherwise valid (the schema accepts the document, and each of the two elements, alone in
  the document, draws no error) is invalid with exactly two errors, one for each element,
  whose paths are the id fields \<open>elements[0].id\<close> and \<open>elements[1].id\<close>.
\<close>

theorem duplicate_id_two_errors:
  assumes "elements l = [a, b]" and "id_el a = ''gauge_1''" and "id_el b = ''gauge_1''"
    and "fst (validateSchema h l)"
    and "element_errors h (l\<lparr>elements := [a]\<rparr>) 0 a = []"
    and "element_errors h (l\<lparr>elements := [b]\<rparr>) 0 b = []"
  shows "isValid (validateLayout h l) = False
    \<and> length (errors (validateLayout h l)) = 2
    \<and> errors (validateLayout h l) =
        [issue ''elements[0].id'' ''Duplicate element ID: gauge_1'' Error,
         issue ''elements[1].id'' ''Duplicate element ID: gauge_1'' Error]"
proof -
  have dup: "1 < length (filter (\<lambda>el. id_el el = ''gauge_1'') (elements l))"
    using assms(1-3) by simp
  have ea: "element_errors h l 0 a =
      [issue ''elements[0].id'' ''Duplicate element ID: gauge_1'' Error]"
    using element_errors_duplicate_only[where l = l and i = 0, OF assms(5)] dup assms(2)
    by (simp add: dec_0)
  have eb: "element_errors h l 1 b =
      [issue ''elements[1].id'' ''Duplicate element ID: gauge_1'' Error]"
    using element_errors_duplicate_only[where l = l and i = 1, OF assms(6)] dup assms(3)
    by (simp add: dec_Suc_0)
  have "enumerate 0 (elements l) = [(0, a), (1, b)]"
    using assms(1) by simp
  then have "errors (validateLayout h l) =
        [issue ''elements[0].id'' ''Duplicate element ID: gauge_1'' Error,
         issue ''elements[1].id'' ''Duplicate element ID: gauge_1'' Error]"
    using assms(4) ea eb by (simp add: validateLayout_eq Let_def)
  moreover have "isValid (validateLayout h l) = (errors (validateLayout h l) = [])"
    by (simp add: validateLayout_eq Let_def)
  ultimately show ?thesis by simp
qed

theorem duplicate_id_two_errors_witness:
  "map id_el [gauge_1, gauge_1\<lparr>sensor := ''GPU_Utilization'', animated := False, animationSpeed := 1\<rparr>]
     = [''gauge_1'', ''gauge_1'']
   \<and> fst (validateSchema permissive_host
        (defaultLayout\<lparr>elements := [gauge_1,
           gauge_1\<lparr>sensor := ''GPU_Utilization'', animated := False, animationSpeed := 1\<rparr>]\<rparr>))
   \<and> isValid (validateLayout permissive_host
        (defaultLayout\<lparr>elements := [gauge_1,
           gauge_1\<lparr>sensor := ''GPU_Utilization'', animated := False, animationSpeed := 1\<rparr>]\<rparr>))
      = False
   \<and> map path (errors (validateLayout permissive_host
        (defaultLayout\<lparr>elements := [gauge_1,
           gauge_1\<lparr>sensor := ''GPU_Utilization'', animated := False, animationSpeed := 1\<rparr>]\<rparr>)))
      = [''elements[0].id'', ''elements[1].id'']"
  using duplicate_id_two_errors [of
      "defaultLayout\<lparr>elements := [gauge_1,
         gauge_1\<lparr>sensor := ''GPU_Utilization'', animated := False, animationSpeed := 1\<rparr>]\<rparr>"
      gauge_1
      "gauge_1\<lparr>sensor := ''GPU_Utilization'', animated := False, animationSpeed := 1\<rparr>"
      permissive_host]
    gauge_1_no_errors [of permissive_host 0]
    gauge_1_variant_no_errors [where h = permissive_host and t = "''GPU_Utilization''"
      and a = False and r = 1 and i = 0]
  by (simp add: defaultLayout_def permissive_host_def issue_def)
     (simp add: gauge_1_def)

subsection \<open>Warnings\<close>

lemma set_push_if: "set (push_if c e xs) = (if c then insert e (set xs) else set xs)"
  by (simp add: push_if_def)

lemma filter_push_if:
  "filter P (push_if c e xs) = (if c \<and> P e then filter P xs @ [e] else filter P xs)"
  by (simp add: push_if_def)

lemma path_issue [simp]: "path (issue p m s) = p"
  by (simp add: issue_def)

lemma dec_append_last:
  "dec i @ ys = dec k @ zs \<Longrightarrow> ys \<noteq> [] \<Longrightarrow> zs \<noteq> [] \<Longrightarrow> last ys = last zs"
  by (drule arg_cong[where f = last]) simp

lemma sensor_path_filter:
  "filter (\<lambda>w. path w = ''elements['' @ dec k @ ''].sensor'') (element_warnings h l i e) =
     (if i = k \<and> truthy_string (sensor e) \<and> sensor e \<notin> set VALID_SENSOR_IDS
      then [issue (''elements['' @ dec k @ ''].sensor'')
              (''Unknown sensor ID: '' @ sensor e @ ''. Valid sensors: ''
                 @ join '', '' VALID_SENSOR_IDS) Warning]
      else [])"
  by (auto simp: element_warnings_eq filter_push_if dec_inject dest: dec_append_last)

lemma animationSpeed_path_filter:
  "filter (\<lambda>w. path w = ''elements['' @ dec k @ ''].animationSpeed'')
       (element_warnings h l i e) =
     (if i = k \<and> animated e \<and> animationSpeed e \<noteq> 0
          \<and> (animationSpeed e < 1 / 10 \<or> animationSpeed e > 10)
      then [issue (''elements['' @ dec k @ ''].animationSpeed'')
              (''Animation speed should be between 0.1 and 10.0, got: ''
                 @ numberToString h (animationSpeed e)) Warning]
      else [])"
  by (auto simp: element_warnings_eq filter_push_if dec_inject truthy_number_def
      dest: dec_append_last)


lemma concat_enumerate_above:
  "k < n \<Longrightarrow> concat (map (\<lambda>ie. if fst ie = k then g (snd ie) else []) (enumerate n es)) = []"
proof (induction es arbitrary: n)
  case Nil
  show ?case by simp
next
  case (Cons e es)
  from Cons.prems have "k < Suc n" by simp
  from Cons.IH[OF this] Cons.prems show ?case by simp
qed

lemma concat_enumerate_single:
  "n \<le> k \<Longrightarrow> k < n + length es \<Longrightarrow>
     concat (map (\<lambda>ie. if fst ie = k then g (snd ie) else []) (enumerate n es))
       = g (es ! (k - n))"
proof (induction es arbitrary: n)
  case Nil
  then show ?case by simp
next
  case (Cons e es)
  show ?case
  proof (cases "k = n")
    case True
    then show ?thesis by (simp add: concat_enumerate_above)
  next
    case False
    with Cons.prems have "Suc n \<le> k" "k < Suc n + length es" by simp_all
    from Cons.IH[OF this] False Cons.prems show ?thesis
      by (simp add: Suc_diff_le)
  qed
qed

lemma warnings_validateLayout:
  "warnings (validateLayout h l) =
     concat (map (\<lambda>ie. element_warnings h l (fst ie) (snd ie)) (enumerate 0 (elements l)))"
  by (simp add: validateLayout_eq Let_def)

lemma sensor_path_warnings:
  assumes "k < length (elements l)"
  shows "filter (\<lambda>w. path w = ''elements['' @ dec k @ ''].sensor'')
           (warnings (validateLayout h l)) =
     (if truthy_string (sensor (elements l ! k)) \<and> sensor (elements l ! k) \<notin> set VALID_SENSOR_IDS
      then [issue (''elements['' @ dec k @ ''].sensor'')
              (''Unknown sensor ID: '' @ sensor (elements l ! k) @ ''. Valid sensors: ''
                 @ join '', '' VALID_SENSOR_IDS) Warning]
      else [])"
proof -
  let ?g = "\<lambda>e. if truthy_string (sensor e) \<and> sensor e \<notin> set VALID_SENSOR_IDS
      then [issue (''elements['' @ dec k @ ''].sensor'')
              (''Unknown sensor ID: '' @ sensor e @ ''. Valid sensors: ''
                 @ join '', '' VALID_SENSOR_IDS) Warning]
      else []"
  have "filter (\<lambda>w. path w = ''elements['' @ dec k @ ''].sensor'')
           (warnings (validateLayout h l)) =
      concat (map (\<lambda>ie. if fst ie = k then ?g (snd ie) else []) (enumerate 0 (elements l)))"
    unfolding warnings_validateLayout filter_concat map_map comp_def sensor_path_filter
    by (rule arg_cong[where f = concat], rule map_cong) auto
  also have "\<dots> = ?g (elements l ! (k - 0))"
    using assms by (intro concat_enumerate_single) simp_all
  finally show ?thesis by simp
qed

lemma animationSpeed_path_warnings:
  assumes "k < length (elements l)"
  shows "filter (\<lambda>w. path w = ''elements['' @ dec k @ ''].animationSpeed'')
           (warnings (validateLayout h l)) =
     (if animated (elements l ! k) \<and> animationSpeed (elements l ! k) \<noteq> 0
          \<and> (animationSpeed (elements l ! k) < 1 / 10 \<or> animationSpeed (elements l ! k) > 10)
      then [issue (''elements['' @ dec k @ ''].animationSpeed'')
              (''Animation speed should be between 0.1 and 10.0, got: ''
                 @ numberToString h (animationSpeed (elements l ! k))) Warning]
      else [])"
proof -
  let ?g = "\<lambda>e. if animated e \<and> animationSpeed e \<noteq> 0
          \<and> (animationSpeed e < 1 / 10 \<or> animationSpeed e > 10)
      then [issue (''elements['' @ dec k @ ''].animationSpeed'')
              (''Animation speed should be between 0.1 and 10.0, got: ''
                 @ numberToString h (animationSpeed e)) Warning]
      else []"
  have "filter (\<lambda>w. path w = ''elements['' @ dec k @ ''].animationSpeed'')
           (warnings (validateLayout h l)) =
      concat (map (\<lambda>ie. if fst ie = k then ?g (snd ie) else []) (enumerate 0 (elements l)))"
    unfolding warnings_validateLayout filter_concat map_map comp_def animationSpeed_path_filter
    by (rule arg_cong[where f = concat], rule map_cong) auto
  also have "\<dots> = ?g (elements l ! (k - 0))"
    using assms by (intro concat_enumerate_single) simp_all
  finally show ?thesis by simp
qed

lemma errors_validateLayout_Nil:
  assumes "fst (validateSchema h l)"
    and "\<forall>i < length (elements l). element_errors h l i (elements l ! i) = []"
  shows "errors (validateLayout h l) = []" and "isValid (validateLayout h l)"
proof -
  have "\<forall>ie \<in> set (enumerate 0 (elements l)). element_errors h l (fst ie) (snd ie) = []"
    using assms(2) by (auto simp: in_set_enumerate_eq)
  then have "concat (map (\<lambda>ie. element_errors h l (fst ie) (snd ie))
      (enumerate 0 (elements l))) = []"
    by simp
  with assms(1) show "errors (validateLayout h l) = []" and "isValid (validateLayout h l)"
    by (simp_all add: validateLayout_eq Let_def)
qed

text \<open>
  The errors the rules push for an element depend on the ids of the document and on the
  id and the visual properties of the element, not on its sensor.
\<close>

lemma length_filter_ids:
  "length (filter (\<lambda>el. id_el el = i) es) = length (filter (\<lambda>j. j = i) (map id_el es))"
  by (induction es) simp_all

lemma element_errors_cong:
  assumes "map id_el (elements l) = map id_el (elements l')"
    and "id_el e = id_el e'" and "visual e = visual e'"
  shows "element_errors h l i e = element_errors h l' i e'"
proof -
  have "length (filter (\<lambda>el. id_el el = id_el e) (elements l))
      = length (filter (\<lambda>el. id_el el = id_el e') (elements l'))"
    using assms(1,2) by (simp add: length_filter_ids)
  then show ?thesis
    unfolding element_errors_def element_rules_def Let_def fst_conv snd_conv
    using assms(2,3) by simp
qed

lemma element_errors_sensor_update:
  assumes "k < length (elements l)" and "i < length (elements l)"
  shows "element_errors h
           (l\<lparr>elements := (elements l)[k := (elements l ! k)\<lparr>sensor := t\<rparr>]\<rparr>) i
           ((elements l)[k := (elements l ! k)\<lparr>sensor := t\<rparr>] ! i)
         = element_errors h l i (elements l ! i)"
proof (rule element_errors_cong)
  have "map id_el ((elements l)[k := (elements l ! k)\<lparr>sensor := t\<rparr>])
      = (map id_el (elements l))[k := map id_el (elements l) ! k]"
    using assms(1) by (simp add: map_update)
  then show "map id_el (elements (l\<lparr>elements := (elements l)[k := (elements l ! k)\<lparr>sensor := t\<rparr>]\<rparr>))
      = map id_el (elements l)"
    by simp
  show "id_el ((elements l)[k := (elements l ! k)\<lparr>sensor := t\<rparr>] ! i) = id_el (elements l ! i)"
    using assms by (cases "i = k") simp_all
  show "visual ((elements l)[k := (elements l ! k)\<lparr>sensor := t\<rparr>] ! i) = visual (elements l ! i)"
    using assms by (cases "i = k") simp_all
qed

text \<open>
  Claim C4, as the code has it. Take a document with an element whose sensor is not
  empty and not among the known sensors, and which is otherwise valid: the schema accepts
  it, and with that sensor replaced by a known one no element draws an error from the
  rules. Then the unknown sensor is reported by exactly one issue on the sensor field of
  the element, a warning in the warnings; the errors are empty, so they hold no issue for
  that field, and the document is valid.
\<close>

theorem unknown_sensor_is_warning:
  assumes "k < length (elements l)"
    and "truthy_string (sensor (elements l ! k))"
    and "sensor (elements l ! k) \<notin> set VALID_SENSOR_IDS"
    and "fst (validateSchema h l)"
    and "known \<in> set VALID_SENSOR_IDS"
    and "\<forall>i < length (elements l).
           element_errors h
             (l\<lparr>elements := (elements l)[k := (elements l ! k)\<lparr>sensor := known\<rparr>]\<rparr>) i
             ((elements l)[k := (elements l ! k)\<lparr>sensor := known\<rparr>] ! i) = []"
  shows "isValid (validateLayout h l) \<and> errors (validateLayout h l) = []
    \<and> filter (\<lambda>w. path w = ''elements['' @ dec k @ ''].sensor'')
        (warnings (validateLayout h l)) =
        [issue (''elements['' @ dec k @ ''].sensor'')
           (''Unknown sensor ID: '' @ sensor (elements l ! k) @ ''. Valid sensors: ''
              @ join '', '' VALID_SENSOR_IDS) Warning]"
proof -
  have "\<forall>i < length (elements l). element_errors h l i (elements l ! i) = []"
    using assms(6) element_errors_sensor_update[OF assms(1), of _ h known] by simp
  then have e: "errors (validateLayout h l) = []" and v: "isValid (validateLayout h l)"
    using errors_validateLayout_Nil[OF assms(4)] by simp_all
  have f: "filter (\<lambda>w. path w = ''elements['' @ dec k @ ''].sensor'')
        (warnings (validateLayout h l)) =
        [issue (''elements['' @ dec k @ ''].sensor'')
           (''Unknown sensor ID: '' @ sensor (elements l ! k) @ ''. Valid sensors: ''
              @ join '', '' VALID_SENSOR_IDS) Warning]"
    using sensor_path_warnings[OF assms(1), of h] assms(2,3) by simp
  from v e f show ?thesis by (intro conjI)
qed

lemma room_sensor_unknown: "''Room_Temperature'' \<notin> set VALID_SENSOR_IDS"
  by (simp add: VALID_SENSOR_IDS_def)

lemma cpu_sensor_known: "''CPU_Utilization'' \<in> set VALID_SENSOR_IDS"
  by (simp add: VALID_SENSOR_IDS_def)

theorem unknown_sensor_is_warning_witness:
  "fst (validateSchema permissive_host
      (defaultLayout\<lparr>elements :=
         [gauge_1\<lparr>sensor := ''Room_Temperature'', animated := False, animationSpeed := 1\<rparr>]\<rparr>))
   \<and> ''Room_Temperature'' \<notin> set VALID_SENSOR_IDS
   \<and> ''CPU_Utilization'' \<in> set VALID_SENSOR_IDS
   \<and> isValid (validateLayout permissive_host
      (defaultLayout\<lparr>elements :=
         [gauge_1\<lparr>sensor := ''Room_Temperature'', animated := False, animationSpeed := 1\<rparr>]\<rparr>))
   \<and> filter (\<lambda>w. path w = ''elements['' @ ''0'' @ ''].sensor'')
        (warnings (validateLayout permissive_host
           (defaultLayout\<lparr>elements :=
              [gauge_1\<lparr>sensor := ''Room_Temperature'', animated := False,
                 animationSpeed := 1\<rparr>]\<rparr>)))
      = [issue (''elements['' @ ''0'' @ ''].sensor'')
           (''Unknown sensor ID: '' @ ''Room_Temperature'' @ ''. Valid sensors: ''
              @ join '', '' VALID_SENSOR_IDS) Warning]"
proof -
  let ?e = "gauge_1\<lparr>sensor := ''Room_Temperature'', animated := False, animationSpeed := 1\<rparr>"
  let ?l = "defaultLayout\<lparr>elements := [?e]\<rparr>"
  have 1: "0 < length (elements ?l)" by (simp add: defaultLayout_def)
  have 6: "sensor (elements ?l ! 0) = ''Room_Temperature''"
    by (simp add: defaultLayout_def gauge_1_def)
  have 2: "truthy_string (sensor (elements ?l ! 0))"
    unfolding 6 by (simp add: truthy_string_def)
  have 3: "sensor (elements ?l ! 0) \<notin> set VALID_SENSOR_IDS"
    unfolding 6 by (rule room_sensor_unknown)
  have 4: "fst (validateSchema permissive_host ?l)"
    by (simp add: permissive_host_def)
  have 5: "\<forall>i < length (elements ?l).
           element_errors permissive_host
             (?l\<lparr>elements := (elements ?l)[0 := (elements ?l ! 0)\<lparr>sensor := ''CPU_Utilization''\<rparr>]\<rparr>) i
             ((elements ?l)[0 := (elements ?l ! 0)\<lparr>sensor := ''CPU_Utilization''\<rparr>] ! i) = []"
    using gauge_1_variant_no_errors
      [where h = permissive_host and t = "''CPU_Utilization''" and a = False and r = 1 and i = 0]
    by (simp add: defaultLayout_def gauge_1_def)
  note w = unknown_sensor_is_warning [OF 1 2 3 4 cpu_sensor_known 5]
  from w have v: "isValid (validateLayout permissive_host ?l)" by (rule conjunct1)
  from w have f: "filter (\<lambda>w. path w = ''elements['' @ dec 0 @ ''].sensor'')
        (warnings (validateLayout permissive_host ?l))
      = [issue (''elements['' @ dec 0 @ ''].sensor'')
           (''Unknown sensor ID: '' @ sensor (elements ?l ! 0) @ ''. Valid sensors: ''
              @ join '', '' VALID_SENSOR_IDS) Warning]"
    by (rule conjunct2[OF conjunct2])
  from 4 room_sensor_unknown cpu_sensor_known v f[unfolded 6 dec_0] show ?thesis
    by (intro conjI)
qed

text \<open>
  Claim C4 as stated fails for the empty sensor: it is not among the known sensors, the
  document is valid, and the rule, whose guard reads the sensor as a truth value, reports
  no issue for it at all.
\<close>

theorem empty_sensor_counterexample:
  "'''' \<notin> set VALID_SENSOR_IDS
   \<and> isValid (validateLayout permissive_host
        (defaultLayout\<lparr>elements :=
           [gauge_1\<lparr>sensor := '''', animated := False, animationSpeed := 1\<rparr>]\<rparr>))
   \<and> errors (validateLayout permissive_host
        (defaultLayout\<lparr>elements :=
           [gauge_1\<lparr>sensor := '''', animated := False, animationSpeed := 1\<rparr>]\<rparr>)) = []
   \<and> warnings (validateLayout permissive_host
        (defaultLayout\<lparr>elements :=
           [gauge_1\<lparr>sensor := '''', animated := False, animationSpeed := 1\<rparr>]\<rparr>)) = []"
proof -
  let ?l = "defaultLayout\<lparr>elements :=
           [gauge_1\<lparr>sensor := '''', animated := False, animationSpeed := 1\<rparr>]\<rparr>"
  have 1: "'''' \<notin> set VALID_SENSOR_IDS" by (simp add: VALID_SENSOR_IDS_def)
  have s: "fst (validateSchema permissive_host ?l)" by (simp add: permissive_host_def)
  have "\<forall>i < length (elements ?l). element_errors permissive_host ?l i (elements ?l ! i) = []"
    using gauge_1_variant_no_errors
      [where h = permissive_host and t = "''''" and a = False and r = 1 and i = 0]
    by (simp add: defaultLayout_def)
  from errors_validateLayout_Nil[OF s this]
  have 2: "errors (validateLayout permissive_host ?l) = []"
    and 3: "isValid (validateLayout permissive_host ?l)" by simp_all
  have 4: "warnings (validateLayout permissive_host ?l) = []"
    by (simp add: warnings_validateLayout element_warnings_eq push_if_def defaultLayout_def
        gauge_1_def truthy_string_def truthy_number_def)
  from 1 3 2 4 show ?thesis by (intro conjI)
qed

subsection \<open>Animation speed\<close>

text \<open>
  Claim C5 at an animated element whose animation speed is 0. The speed lies outside
  the range from 0.1 to 10, and validation reports no warning at all for the element: the
  guard of the rule reads the speed as a truth value, and 0 is falsy. At the speed 0.05
  the same element draws the warning on \<open>elements[0].animationSpeed\<close>.
\<close>

theorem animationSpeed_zero_no_warning:
  "warnings (validateLayout permissive_host
      (defaultLayout\<lparr>elements :=
         [gauge_1\<lparr>sensor := ''CPU_Utilization'', animated := True, animationSpeed := 0\<rparr>]\<rparr>))
     = []
   \<and> map path (warnings (validateLayout permissive_host
      (defaultLayout\<lparr>elements :=
         [gauge_1\<lparr>sensor := ''CPU_Utilization'', animated := True,
            animationSpeed := 1 / 20\<rparr>]\<rparr>)))
     = [''elements[0].animationSpeed'']"
  by (simp add: warnings_validateLayout element_warnings_eq push_if_def defaultLayout_def
      gauge_1_def VALID_SENSOR_IDS_def truthy_string_def truthy_number_def dec_0)


section \<open>Properties of the generated ids\<close>

subsection \<open>Stamps\<close>

text \<open>A generated id is a prefix that ends in an underscore, followed by a clock reading.\<close>

lemma after_last_underscore_stamp:
  assumes "CHR ''_'' \<notin> set d" and "p \<noteq> []" and "last p = CHR ''_''"
  shows "after_last_underscore (p @ d) = d"
proof -
  from assms(2,3) obtain q where p: "p = q @ [CHR ''_'']"
    by (metis append_butlast_last_id)
  show ?thesis
    unfolding p using assms(1) by (simp add: after_last_underscore_def takeWhile_append)
qed

lemma stamped_before_stamp:
  assumes "p \<noteq> []" and "last p = CHR ''_''"
  shows "stamped_before lo (p @ dec n) \<longleftrightarrow> n < lo"
proof -
  have "CHR ''_'' \<in> set p" using assms by (metis last_in_set)
  then show ?thesis
    by (simp add: stamped_before_def after_last_underscore_stamp[OF underscore_notin_dec assms]
        undec_dec)
qed

lemma stamped_before_mono: "stamped_before lo i \<Longrightarrow> lo \<le> lo' \<Longrightarrow> stamped_before lo' i"
  by (auto simp: stamped_before_def split: option.splits if_splits)

lemma stamp_inject:
  assumes "p @ dec m = q @ dec n" and "p \<noteq> []" and "last p = CHR ''_''"
    and "q \<noteq> []" and "last q = CHR ''_''"
  shows "m = n \<and> p = q"
proof -
  have "after_last_underscore (p @ dec m) = after_last_underscore (q @ dec n)"
    using assms(1) by simp
  then have "dec m = dec n"
    by (simp add: after_last_underscore_stamp[OF underscore_notin_dec] assms(2-5))
  then have "m = n" by (simp add: dec_inject)
  with assms(1) show ?thesis by simp
qed

lemma fresh_stamp:
  assumes "\<forall>e \<in> set es. stamped_before lo (id_el e)" and "lo \<le> n"
    and "p \<noteq> []" and "last p = CHR ''_''"
  shows "p @ dec n \<notin> id_el ` set es"
proof
  assume "p @ dec n \<in> id_el ` set es"
  then obtain e where "e \<in> set es" "id_el e = p @ dec n" by auto
  with assms(1) have "stamped_before lo (p @ dec n)" by metis
  with assms(2) show False by (simp add: stamped_before_stamp[OF assms(3,4)])
qed

lemma addElement_stamped:
  assumes "distinct (map id_el (elements (layout s)))"
    and "\<forall>e \<in> set (elements (layout s)). stamped_before lo (id_el e)"
    and "lo \<le> n" and "id_el el = p @ dec n" and "p \<noteq> []" and "last p = CHR ''_''"
  shows "distinct (map id_el (elements (layout (addElement h el s))))
    \<and> (\<forall>e \<in> set (elements (layout (addElement h el s))). stamped_before (Suc n) (id_el e))"
proof -
  have "id_el el \<notin> id_el ` set (elements (layout s))"
    using fresh_stamp[OF assms(2,3,5,6)] assms(4) by simp
  with assms(1) have "distinct (map id_el (elements (layout (addElement h el s))))"
    by (simp add: elements_addElement)
  moreover have "stamped_before (Suc n) (id_el el)"
    by (simp add: assms(4) stamped_before_stamp[OF assms(5,6)])
  moreover have "\<forall>e \<in> set (elements (layout s)). stamped_before (Suc n) (id_el e)"
    using assms(2,3) stamped_before_mono[of lo _ "Suc n"] by auto
  ultimately show ?thesis
    by (simp add: elements_addElement)
qed

subsection \<open>The calls keep the ids distinct\<close>

lemma stamped_store_mono: "stamped_store lo s \<Longrightarrow> lo \<le> lo' \<Longrightarrow> stamped_store lo' s"
  using stamped_before_mono by (auto simp: stamped_store_def)

lemma addElement_stamped_store:
  assumes "stamped_store lo s" and "lo \<le> n"
    and "id_el el = p @ dec n" and "p \<noteq> []" and "last p = CHR ''_''"
  shows "stamped_store (Suc n) (addElement h el s)"
  using assms addElement_stamped[of s lo n el p h]
  by (simp add: stamped_store_def)

lemma createElement_stamped:
  assumes "stamped_store lo s" and "lo \<le> now"
  shows "stamped_store (Suc now) (call h (CreateElement now t x y sens) s)"
proof (cases "lookup_definition t")
  case (Own d)
  show ?thesis
    using Own
    by (simp add: createElement_def Let_def)
       (rule addElement_stamped_store[OF assms, where p = "t @ ''_''"], simp_all)
next
  case Inherited
  then show ?thesis
    using stamped_store_mono[OF assms(1), of "Suc now"] assms(2)
    by (simp add: createElement_def)
next
  case Undefined
  then show ?thesis
    using stamped_store_mono[OF assms(1), of "Suc now"] assms(2)
    by (simp add: createElement_def)
qed

lemma duplicateElement_stamped:
  assumes "stamped_store lo s" and "lo \<le> now"
  shows "stamped_store (Suc now) (call h (DuplicateElement now i) s)"
proof (cases "find (\<lambda>el. id_el el = i) (elements (layout s))")
  case None
  then show ?thesis
    using stamped_store_mono[OF assms(1), of "Suc now"] assms(2)
    by (simp add: duplicateElement_def)
next
  case (Some element)
  show ?thesis
    using Some
    by (simp add: duplicateElement_def)
       (rule addElement_stamped_store[OF assms, where p = "id_el element @ ''_copy_''"],
        simp_all)
qed

lemma fold_max_ge_init: "a \<le> fold max xs (a::nat)"
proof (induction xs arbitrary: a)
  case Nil
  show ?case by simp
next
  case (Cons x xs)
  have "max x a \<le> fold max xs (max x a)" by (rule Cons.IH)
  then show ?case by simp
qed

lemma fold_max_ge_member: "x \<in> set xs \<Longrightarrow> x \<le> fold max xs (a::nat)"
proof (induction xs arbitrary: a)
  case Nil
  then show ?case by simp
next
  case (Cons y ys)
  show ?case
  proof (cases "x = y")
    case True
    have "max y a \<le> fold max ys (max y a)" by (rule fold_max_ge_init)
    with True show ?thesis by simp
  next
    case False
    with Cons.prems have "x \<in> set ys" by simp
    from Cons.IH[OF this] show ?thesis by simp
  qed
qed


lemma elements_paste:
  "map id_el (elements (layout (paste h now s))) =
     map id_el (elements (layout s))
     @ map (\<lambda>kel. (id_el (snd kel) @ ''_paste_'') @ dec (now (fst kel)))
         (enumerate 0 (clipboard s))"
  by (simp add: paste_def Let_def comp_def)

lemma clipboard_call: "clipboard (call h c s) = clipboard s"
proof (cases c)
  case (CreateElement now t x y sens)
  then show ?thesis
    by (cases "lookup_definition t") (simp_all add: createElement_def Let_def)
next
  case (DuplicateElement now i)
  then show ?thesis
    by (cases "find (\<lambda>el. id_el el = i) (elements (layout s))")
       (simp_all add: duplicateElement_def)
next
  case (Paste now)
  then show ?thesis by (simp add: paste_def Let_def)
qed

lemma pasted_ids_distinct:
  assumes "distinct (map id_el cb)"
  shows "distinct (map (\<lambda>kel. (id_el (snd kel) @ ''_paste_'') @ dec (now (fst kel)))
           (enumerate 0 cb))"
proof -
  let ?f = "\<lambda>kel. (id_el (snd kel) @ ''_paste_'') @ dec (now (fst kel))"
  have "inj_on ?f (set (enumerate 0 cb))"
  proof (rule inj_onI)
    fix a b
    assume a: "a \<in> set (enumerate 0 cb)" and b: "b \<in> set (enumerate 0 cb)"
      and eq: "?f a = ?f b"
    from a b have ia: "fst a < length cb" "cb ! fst a = snd a"
      and ib: "fst b < length cb" "cb ! fst b = snd b"
      by (simp_all add: in_set_enumerate_eq)
    from eq have "id_el (snd a) @ ''_paste_'' = id_el (snd b) @ ''_paste_''"
      using stamp_inject[of "id_el (snd a) @ ''_paste_''" "now (fst a)"
          "id_el (snd b) @ ''_paste_''" "now (fst b)"]
      by simp
    then have "id_el (snd a) = id_el (snd b)" by simp
    with ia ib have m: "map id_el cb ! fst a = map id_el cb ! fst b" by simp
    have "fst a < length (map id_el cb)" "fst b < length (map id_el cb)"
      using ia ib by simp_all
    from nth_eq_iff_index_eq[OF assms this] m have "fst a = fst b" by blast
    with ia ib show "a = b" by (simp add: prod_eq_iff)
  qed
  then show ?thesis by (simp add: distinct_map distinct_enumerate)
qed

lemma pasted_ids_fresh:
  assumes "\<forall>e \<in> set es. stamped_before lo (id_el e)"
    and "\<forall>k < length cb. lo \<le> now k"
    and "kel \<in> set (enumerate 0 cb)"
  shows "(id_el (snd kel) @ ''_paste_'') @ dec (now (fst kel)) \<notin> id_el ` set es"
proof -
  from assms(3) have "fst kel < length cb" by (simp add: in_set_enumerate_eq)
  with assms(2) have "lo \<le> now (fst kel)" by blast
  then show ?thesis
    by (intro fresh_stamp[OF assms(1)]) simp_all
qed

lemma pasted_ids_stamped:
  assumes "kel \<in> set (enumerate 0 cb)"
  shows "stamped_before (fold max (map Suc (map now [0..<length cb])) lo)
           ((id_el (snd kel) @ ''_paste_'') @ dec (now (fst kel)))"
proof -
  from assms have "fst kel < length cb" by (simp add: in_set_enumerate_eq)
  then have "Suc (now (fst kel)) \<in> set (map Suc (map now [0..<length cb]))"
    by simp
  then have "Suc (now (fst kel)) \<le> fold max (map Suc (map now [0..<length cb])) lo"
    by (rule fold_max_ge_member)
  then have "now (fst kel) < fold max (map Suc (map now [0..<length cb])) lo"
    by simp
  moreover have "id_el (snd kel) @ ''_paste_'' \<noteq> []" by simp
  moreover have "last (id_el (snd kel) @ ''_paste_'') = CHR ''_''" by simp
  ultimately show ?thesis
    using stamped_before_stamp[of "id_el (snd kel) @ ''_paste_''"
        "fold max (map Suc (map now [0..<length cb])) lo" "now (fst kel)"]
    by blast
qed

lemma paste_stamped:
  assumes "stamped_store lo s" and "\<forall>k < length (clipboard s). lo \<le> now k"
  shows "stamped_store (fold max (map Suc (map now [0..<length (clipboard s)])) lo)
           (call h (Paste now) s)"
proof -
  let ?hi = "fold max (map Suc (map now [0..<length (clipboard s)])) lo"
  let ?f = "\<lambda>kel. (id_el (snd kel) @ ''_paste_'') @ dec (now (fst kel))"
  let ?old = "map id_el (elements (layout s))"
  let ?new = "map ?f (enumerate 0 (clipboard s))"
  from assms(1) have d: "distinct ?old"
    and dc: "distinct (map id_el (clipboard s))"
    and st: "\<forall>e \<in> set (elements (layout s)). stamped_before lo (id_el e)"
    unfolding stamped_store_def by blast+
  have lo: "lo \<le> ?hi" by (rule fold_max_ge_init)
  have ids: "map id_el (elements (layout (paste h now s))) = ?old @ ?new"
    by (rule elements_paste)
  have fresh: "set ?old \<inter> set ?new = {}"
  proof (rule ccontr)
    assume "set ?old \<inter> set ?new \<noteq> {}"
    then obtain i where "i \<in> set ?old" "i \<in> set ?new" by blast
    from \<open>i \<in> set ?new\<close> obtain kel
      where kel: "kel \<in> set (enumerate 0 (clipboard s))" and i: "i = ?f kel"
      unfolding set_map by blast
    from pasted_ids_fresh[OF st assms(2) kel] have "?f kel \<notin> set ?old"
      unfolding set_map .
    with \<open>i \<in> set ?old\<close> i show False by blast
  qed
  have 1: "distinct (map id_el (elements (layout (paste h now s))))"
    unfolding ids distinct_append
    using d pasted_ids_distinct[OF dc, of now] fresh by (intro conjI)
  have 2: "\<forall>e \<in> set (elements (layout (paste h now s))). stamped_before ?hi (id_el e)"
  proof
    fix e
    assume "e \<in> set (elements (layout (paste h now s)))"
    then have "id_el e \<in> set (?old @ ?new)"
      unfolding ids[symmetric] set_map by (rule imageI)
    then have "id_el e \<in> set ?old \<or> id_el e \<in> set ?new"
      unfolding set_append by blast
    then show "stamped_before ?hi (id_el e)"
    proof
      assume "id_el e \<in> set ?old"
      then obtain e' where "e' \<in> set (elements (layout s))" "id_el e = id_el e'"
        unfolding set_map by blast
      with st have "stamped_before lo (id_el e)" by metis
      then show ?thesis using lo by (rule stamped_before_mono)
    next
      assume "id_el e \<in> set ?new"
      then obtain kel where kel: "kel \<in> set (enumerate 0 (clipboard s))"
        and i: "id_el e = ?f kel"
        unfolding set_map by blast
      from pasted_ids_stamped[OF kel, of now lo] show ?thesis
        unfolding i .
    qed
  qed
  have 3: "clipboard (paste h now s) = clipboard s" by (simp add: paste_def Let_def)
  have "stamped_store ?hi (paste h now s)"
    unfolding stamped_store_def 3 using 1 2 dc by (intro conjI)
  then show ?thesis by (simp only: call.simps)
qed

lemma call_stamped:
  assumes "stamped_store lo s"
    and "\<forall>t \<in> set (readings (length (clipboard s)) c). lo \<le> t"
  shows "stamped_store (fold max (map Suc (readings (length (clipboard s)) c)) lo) (call h c s)"
proof (cases c)
  case (CreateElement now t x y sens)
  with assms(2) have "lo \<le> now" by simp
  then have "max (Suc now) lo = Suc now" by simp
  with createElement_stamped[OF assms(1) \<open>lo \<le> now\<close>, of h t x y sens] CreateElement
  show ?thesis by simp
next
  case (DuplicateElement now i)
  with assms(2) have "lo \<le> now" by simp
  then have "max (Suc now) lo = Suc now" by simp
  with duplicateElement_stamped[OF assms(1) \<open>lo \<le> now\<close>, of h i] DuplicateElement
  show ?thesis by simp
next
  case (Paste now)
  with assms(2) have "\<forall>k < length (clipboard s). lo \<le> now k" by simp
  from paste_stamped[OF assms(1) this, of h] Paste show ?thesis by simp
qed

lemma calls_stamped:
  "stamped_store lo s \<Longrightarrow> clock_advances (length (clipboard s)) lo cs \<Longrightarrow>
     \<exists>hi. stamped_store hi (calls h cs s)"
proof (induction cs arbitrary: lo s)
  case Nil
  then show ?case by auto
next
  case (Cons c cs)
  let ?hi = "fold max (map Suc (readings (length (clipboard s)) c)) lo"
  from Cons.prems have r: "\<forall>t \<in> set (readings (length (clipboard s)) c). lo \<le> t"
    and rest: "clock_advances (length (clipboard s)) ?hi cs"
    by simp_all
  have st: "stamped_store ?hi (call h c s)"
    by (rule call_stamped[OF Cons.prems(1) r])
  have "clock_advances (length (clipboard (call h c s))) ?hi cs"
    using rest by (simp add: clipboard_call)
  from Cons.IH[OF st this] show ?case by simp
qed

text \<open>
  Claim C1, as the code has it. The generated ids end in the clock reading and nothing
  checks them against the ids in the document, so uniqueness rests on the clock. Start
  from a store whose element ids are pairwise distinct, whose clipboard ids are pairwise
  distinct, and none of whose element ids ends in an underscore followed by a reading of
  \<open>lo\<close> or later. Then after every sequence of \<open>createElement\<close>, \<open>duplicateElement\<close> and
  \<open>paste\<close> calls that read the clock at \<open>lo\<close> or later, each call later than all calls
  before it, the element ids are pairwise distinct.
\<close>

theorem ids_distinct_while_clock_advances:
  assumes "distinct (map id_el (elements (layout s)))"
    and "distinct (map id_el (clipboard s))"
    and "\<forall>e \<in> set (elements (layout s)). stamped_before lo (id_el e)"
    and "clock_advances (length (clipboard s)) lo cs"
  shows "distinct (map id_el (elements (layout (calls h cs s))))"
proof -
  from assms(1-3) have "stamped_store lo s" by (simp add: stamped_store_def)
  from calls_stamped[OF this assms(4), of h] show ?thesis
    by (auto simp: stamped_store_def)
qed

text \<open>
  The empty document meets the condition on the store for every \<open>lo\<close>, and \<open>copySelected\<close>
  fills the clipboard with pairwise distinct ids when the document has them.
\<close>

lemma initial_store_stamped: "stamped_store lo initial_store"
  by (simp add: stamped_store_def initial_store_def defaultLayout_def)

lemma copySelected_distinct:
  "distinct (map id_el (elements (layout s))) \<Longrightarrow>
     distinct (map id_el (clipboard (copySelected s)))"
  by (simp add: copySelected_def distinct_map_filter)

lemma clipboard_paste: "clipboard (paste h now s) = clipboard s"
  by (simp add: paste_def Let_def)

lemma gauge_1_stamped: "stamped_before 1000 ''gauge_1''"
  by (simp add: stamped_before_def after_last_underscore_def undec_def digit_val_def)

lemma dec_1001: "dec 1001 = ''1001''"
  by code_simp

lemma dec_1002: "dec 1002 = ''1002''"
  by code_simp

theorem ids_distinct_while_clock_advances_witness:
  "clock_advances 1 1000
     [CreateElement 1000 ''gauge'' 0 0 None, DuplicateElement 1001 ''gauge_1'',
      Paste (\<lambda>k. 1002)]
   \<and> map id_el (elements (layout (calls permissive_host
        [CreateElement 1000 ''gauge'' 0 0 None, DuplicateElement 1001 ''gauge_1'',
         Paste (\<lambda>k. 1002)]
        (initial_store\<lparr>layout := defaultLayout\<lparr>elements := [gauge_1]\<rparr>,
           clipboard := [gauge_1]\<rparr>))))
      = [''gauge_1'', ''gauge_1000'', ''gauge_1_copy_1001'', ''gauge_1_paste_1002'']
   \<and> distinct (map id_el (elements (layout (calls permissive_host
        [CreateElement 1000 ''gauge'' 0 0 None, DuplicateElement 1001 ''gauge_1'',
         Paste (\<lambda>k. 1002)]
        (initial_store\<lparr>layout := defaultLayout\<lparr>elements := [gauge_1]\<rparr>,
           clipboard := [gauge_1]\<rparr>)))))"
proof -
  let ?s = "initial_store\<lparr>layout := defaultLayout\<lparr>elements := [gauge_1]\<rparr>,
           clipboard := [gauge_1]\<rparr>"
  let ?cs = "[CreateElement 1000 ''gauge'' 0 0 None, DuplicateElement 1001 ''gauge_1'',
      Paste (\<lambda>k. 1002)]"
  have 1: "distinct (map id_el (elements (layout ?s)))"
    by (simp add: defaultLayout_def)
  have 2: "distinct (map id_el (clipboard ?s))" by simp
  have 3: "\<forall>e \<in> set (elements (layout ?s)). stamped_before 1000 (id_el e)"
    using gauge_1_stamped by (simp add: defaultLayout_def gauge_1_def)
  have 4: "clock_advances (length (clipboard ?s)) 1000 ?cs" by simp
  have 5: "clock_advances 1 1000 ?cs" by simp
  have 6: "map id_el (elements (layout (calls permissive_host ?cs ?s)))
      = [''gauge_1'', ''gauge_1000'', ''gauge_1_copy_1001'', ''gauge_1_paste_1002'']"
    by (simp add: createElement_def lookup_gauge Let_def elements_addElement
        duplicateElement_def elements_paste dec_1000 dec_1001 dec_1002
        defaultLayout_def gauge_1_def)
  from ids_distinct_while_clock_advances [OF 1 2 3 4, of permissive_host] 5 6
  show ?thesis by (intro conjI)
qed

text \<open>
  Claim C1 as stated fails when the clock does not advance between two calls: two
  \<open>createElement\<close> calls for the same kind within one millisecond produce the same id
  twice, and so do two \<open>paste\<close> calls of the same clipboard.
\<close>

theorem ids_collide_counterexample:
  "distinct (map id_el (elements (layout initial_store)))
   \<and> \<not> distinct (map id_el (elements (layout (calls permissive_host
        [CreateElement 1000 ''gauge'' 0 0 None, CreateElement 1000 ''gauge'' 40 40 None]
        initial_store))))
   \<and> \<not> distinct (map id_el (elements (layout (calls permissive_host
        [Paste (\<lambda>k. 1000), Paste (\<lambda>k. 1000)]
        (initial_store\<lparr>clipboard := [gauge_1]\<rparr>)))))"
  by (simp add: createElement_def lookup_gauge Let_def elements_addElement elements_paste
      clipboard_paste initial_store_def defaultLayout_def)

end
